theory Spec2Isabelle
  imports Complex_Main "HOL-Library.Word" "HOL-Library.AList"
begin

section \<open>Documents and the album shape\<close>

text \<open>
  A stored document is an ordered association of field paths to leaf values. A nested
  field is named by its dot-separated path, the way the update operator of the handlers
  names it (\<open>stats.popularity\<close>). Go's \<open>float32\<close> is represented by the rational it
  denotes: the handlers only copy such a value and compare it with the constant 0.
\<close>

datatype bson = BString string | BDouble rat | BArray "bson list"

type_synonym document = "(string \<times> bson) list"

text \<open>\<open>models.AlbumStats\<close> and \<open>models.AlbumInfo\<close> (package models).\<close>

record AlbumStats =
  Popularity :: rat

record AlbumInfo =
  ID :: string
  Title :: string
  TrackIDs :: "string list"
  Stats :: AlbumStats

text \<open>Modelled from the spec: the document shape \<open>T\<close> that a store is constructed over, which
  package \<open>store\<close> (not among the sources) maps documents to and from: how a document is read
  into a value of the shape (\<open>None\<close> when it cannot be mapped) and how a value is written.\<close>

record 't Shape =
  Decode :: "document \<Rightarrow> 't option"
  Encode :: "'t \<Rightarrow> document"

text \<open>Reading one field follows the Go driver: a field the document lacks leaves the zero
  value of the struct field, a field of another kind cannot be mapped.\<close>

definition decode_string :: "bson option \<Rightarrow> string option" where
  "decode_string v = (case v of None \<Rightarrow> Some [] | Some (BString s) \<Rightarrow> Some s | Some _ \<Rightarrow> None)"

definition decode_float :: "bson option \<Rightarrow> rat option" where
  "decode_float v = (case v of None \<Rightarrow> Some 0 | Some (BDouble x) \<Rightarrow> Some x | Some _ \<Rightarrow> None)"

fun decode_elements :: "bson list \<Rightarrow> string list option" where
  "decode_elements [] = Some []"
| "decode_elements (BString s # vs) = map_option ((#) s) (decode_elements vs)"
| "decode_elements (_ # vs) = None"

definition decode_strings :: "bson option \<Rightarrow> string list option" where
  "decode_strings v = (case v of None \<Rightarrow> Some [] | Some (BArray vs) \<Rightarrow> decode_elements vs | Some _ \<Rightarrow> None)"

text \<open>The field mapping of \<open>AlbumInfo\<close>, from its \<open>bson\<close> tags:
  \<open>_id\<close>, \<open>title\<close>, \<open>trackIds\<close>, \<open>stats\<close> with \<open>popularity\<close> inside.\<close>

definition AlbumInfo_decode :: "document \<Rightarrow> AlbumInfo option" where
  "AlbumInfo_decode d =
    (case decode_string (map_of d ''_id'') of None \<Rightarrow> None
     | Some i \<Rightarrow>
    (case decode_string (map_of d ''title'') of None \<Rightarrow> None
     | Some t \<Rightarrow>
    (case decode_strings (map_of d ''trackIds'') of None \<Rightarrow> None
     | Some ts \<Rightarrow>
    (case decode_float (map_of d ''stats.popularity'') of None \<Rightarrow> None
     | Some p \<Rightarrow>
        Some \<lparr>AlbumInfo.ID = i, AlbumInfo.Title = t, AlbumInfo.TrackIDs = ts,
              AlbumInfo.Stats = \<lparr>AlbumStats.Popularity = p\<rparr>\<rparr>))))"

definition AlbumInfo_encode :: "AlbumInfo \<Rightarrow> document" where
  "AlbumInfo_encode a =
    [(''_id'', BString (AlbumInfo.ID a)),
     (''title'', BString (AlbumInfo.Title a)),
     (''trackIds'', BArray (map BString (AlbumInfo.TrackIDs a))),
     (''stats.popularity'', BDouble (AlbumStats.Popularity (AlbumInfo.Stats a)))]"

definition AlbumInfo_shape :: "AlbumInfo Shape" where
  "AlbumInfo_shape = \<lparr>Decode = AlbumInfo_decode, Encode = AlbumInfo_encode\<rparr>"

section \<open>Filter and update expression trees (package query)\<close>

text \<open>Modelled from the spec: the predicate nodes of package \<open>query\<close>, which is not among the
  sources: \<open>Eq{Key, Value}\<close>, \<open>And{Clauses}\<close>, \<open>Or{Clauses}\<close>, under the names the handlers
  construct them with.\<close>

datatype IQuery =
  FilterOperatorEq string bson
| FilterOperatorAnd "IQuery list"
| FilterOperatorOr "IQuery list"

text \<open>Modelled from the spec: the filter of package \<open>query\<close>: an optional root predicate and
  a result-count limit, an unsigned 32-bit integer as the handlers' conversion shows.\<close>

record Filter =
  Root :: "IQuery option"
  Limit :: "32 word"

text \<open>Modelled from the spec: the update-operation node of package \<open>query\<close>:
  \<open>Set{Assignments}\<close>, a mapping from field path to value (here in the order written).\<close>

datatype IUpdate = UpdateOperatorSet "(string \<times> bson) list"

text \<open>Modelled from the spec: the update of package \<open>query\<close>, whose root is required.\<close>

record Update =
  Root :: IUpdate

text \<open>Modelled from the spec: what a compiled predicate matches. \<open>Eq\<close> is structural
  equality of the field's value, with no coercion, and a field the document lacks never
  matches; an empty conjunction matches every document, an empty disjunction none.\<close>

fun matches :: "IQuery \<Rightarrow> document \<Rightarrow> bool" where
  "matches (FilterOperatorEq k v) d = (map_of d k = Some v)"
| "matches (FilterOperatorAnd qs) d = list_all (\<lambda>q. matches q d) qs"
| "matches (FilterOperatorOr qs) d = list_ex (\<lambda>q. matches q d) qs"

text \<open>Modelled from the spec: a missing filter root compiles to "match all documents".\<close>

definition filter_matches :: "Filter \<Rightarrow> document \<Rightarrow> bool" where
  "filter_matches f d = (case Filter.Root f of None \<Rightarrow> True | Some q \<Rightarrow> matches q d)"

text \<open>Modelled from the spec: the limit caps how many matches are returned and zero means
  unbounded. Which matches are returned beyond the cap is unspecified; the model returns the
  first ones in collection order.\<close>

definition apply_limit :: "32 word \<Rightarrow> 'a list \<Rightarrow> 'a list" where
  "apply_limit n xs = (if n = 0 then xs else take (unat n) xs)"

text \<open>Modelled from the spec: \<open>Set\<close> applies each assignment to its own field path and
  leaves every other field alone; a later assignment to the same path wins.\<close>

fun apply_update :: "IUpdate \<Rightarrow> document \<Rightarrow> document" where
  "apply_update (UpdateOperatorSet assignments) d =
     fold (\<lambda>kv doc. AList.update (fst kv) (snd kv) doc) assignments d"

section \<open>The typed document store (package store)\<close>

text \<open>Modelled from the spec: the error taxonomy of the store, which is not among the
  sources.\<close>

datatype store_error = ConnectionError | QueryError | DecodeError | DuplicateKeyError

text \<open>Modelled from the spec: the connection to the document database, here together with
  the state behind it: whether the database can be reached while one request is handled, and
  the documents of every (database name, collection name) pair.\<close>

record MongoInstance =
  Reachable :: bool
  Documents :: "string \<times> string \<Rightarrow> document list"

text \<open>Modelled from the spec: the store over a document shape, holding the database name
  and the collection name. The connection is passed to each operation.\<close>

record 't MongoStore =
  StoreShape :: "'t Shape"
  DatabaseName :: string
  CollectionName :: string

text \<open>Modelled from the spec: store construction, from the document shape, the database
  name and the collection name; and the collection a store reads and writes.\<close>

definition NewMongoStore :: "'t Shape \<Rightarrow> string \<Rightarrow> string \<Rightarrow> 't MongoStore" where
  "NewMongoStore shape database collection =
     \<lparr>StoreShape = shape, DatabaseName = database, CollectionName = collection\<rparr>"

definition collection_of :: "'t MongoStore \<Rightarrow> MongoInstance \<Rightarrow> document list" where
  "collection_of store inst = Documents inst (DatabaseName store, CollectionName store)"

definition put_collection :: "'t MongoStore \<Rightarrow> MongoInstance \<Rightarrow> document list \<Rightarrow> MongoInstance" where
  "put_collection store inst docs =
     inst\<lparr>Documents := (Documents inst)((DatabaseName store, CollectionName store) := docs)\<rparr>"

text \<open>Modelled from the spec: \<open>find\<close> reads the matching documents, capped by the limit, and
  maps each into the shape; a connectivity failure and a document that cannot be mapped are
  errors, zero matches are an empty sequence.\<close>

definition FindItems :: "'t MongoStore \<Rightarrow> MongoInstance \<Rightarrow> Filter \<Rightarrow> store_error + 't list" where
  "FindItems store inst f =
    (if \<not> Reachable inst then Inl ConnectionError
     else
      (case those (map (Decode (StoreShape store))
                    (apply_limit (Filter.Limit f) (filter (filter_matches f) (collection_of store inst)))) of
         None \<Rightarrow> Inl DecodeError
       | Some items \<Rightarrow> Inr items))"

text \<open>Modelled from the spec: \<open>create\<close> inserts the one document it is given, as it is given
  (no identifier is generated), and fails when the primary key is taken.\<close>

definition CreateItem :: "'t MongoStore \<Rightarrow> MongoInstance \<Rightarrow> 't \<Rightarrow> store_error + MongoInstance" where
  "CreateItem store inst item =
    (if \<not> Reachable inst then Inl ConnectionError
     else
      (let d = Encode (StoreShape store) item; docs = collection_of store inst
       in if list_ex (\<lambda>e. map_of e ''_id'' = map_of d ''_id'') docs then Inl DuplicateKeyError
          else Inr (put_collection store inst (docs @ [d]))))"

text \<open>Modelled from the spec: \<open>update\<close> applies the update to every document matching the
  filter, whatever the limit, and returns the number of documents matched.\<close>

definition UpdateItem ::
  "'t MongoStore \<Rightarrow> MongoInstance \<Rightarrow> Filter \<Rightarrow> Update \<Rightarrow> store_error + (nat \<times> MongoInstance)" where
  "UpdateItem store inst f u =
    (if \<not> Reachable inst then Inl ConnectionError
     else
      (let docs = collection_of store inst
       in Inr (length (filter (filter_matches f) docs),
               put_collection store inst
                 (map (\<lambda>d. if filter_matches f d then apply_update (Update.Root u) d else d) docs))))"

text \<open>Modelled from the spec: removing the document with a primary key, if there is one.\<close>

fun delete_first :: "string \<Rightarrow> document list \<Rightarrow> document list" where
  "delete_first i [] = []"
| "delete_first i (d # ds) =
     (if map_of d ''_id'' = Some (BString i) then ds else d # delete_first i ds)"

text \<open>Modelled from the spec: \<open>delete\<close> removes at most one document, by primary key, and
  returns how many it removed; no document with that key is a count of zero, not an error.\<close>

definition DeleteItem :: "'t MongoStore \<Rightarrow> MongoInstance \<Rightarrow> string \<Rightarrow> store_error + (nat \<times> MongoInstance)" where
  "DeleteItem store inst i =
    (if \<not> Reachable inst then Inl ConnectionError
     else
      (let docs = collection_of store inst
       in Inr (if list_ex (\<lambda>d. map_of d ''_id'' = Some (BString i)) docs then 1 else 0,
               put_collection store inst (delete_first i docs))))"

section \<open>Requests, responses and the injector (packages api and inject)\<close>

text \<open>Modelled from the spec: the request of package \<open>api\<close>, whose declaration is not among
  the sources; the fields are the ones the handlers read.\<close>

record APIRequest =
  Method :: string
  Path :: string
  PathParameters :: "string \<rightharpoonup> string"
  QueryParameters :: "string \<rightharpoonup> string"
  Body :: string

text \<open>Reading a Go map of strings at a key it lacks gives the empty string.\<close>

definition index :: "(string \<rightharpoonup> string) \<Rightarrow> string \<Rightarrow> string" where
  "index m k = (case m k of None \<Rightarrow> [] | Some v \<Rightarrow> v)"

text \<open>The error bodies of the create and update endpoints.\<close>

record CreateAlbumErrorResponseBody =
  Message :: string

record CreateAlbumValidationError =
  FieldRef :: string
  ErrorMessage :: string

record UpdateAlbumErrorResponseBody =
  Message :: string

record UpdateAlbumValidationError =
  FieldRef :: string
  ErrorMessage :: string

record UpdateAlbumPathValidationError =
  PathRef :: string
  ErrorMessage :: string

text \<open>What a handler puts into the body of a response. The track shape \<open>'t\<close>
  (\<open>models.TrackInfo\<close>) is not among the sources and stays a parameter.\<close>

datatype 't ResponseBody =
  NoBody
| AlbumBody AlbumInfo
| ItemsBody "'t list"
| CreateErrorBody CreateAlbumErrorResponseBody
| CreateValidationBody CreateAlbumValidationError
| UpdateErrorBody UpdateAlbumErrorResponseBody
| UpdateValidationBody UpdateAlbumValidationError
| UpdatePathValidationBody UpdateAlbumPathValidationError

text \<open>Modelled from the spec: the response of package \<open>api\<close>, whose declaration is not among
  the sources: a status code and a body.\<close>

record 't APIResponse =
  StatusCode :: nat
  Body :: "'t ResponseBody"

abbreviation StatusOK :: nat where "StatusOK \<equiv> 200"
abbreviation StatusAccepted :: nat where "StatusAccepted \<equiv> 202"
abbreviation StatusNoContent :: nat where "StatusNoContent \<equiv> 204"
abbreviation StatusBadRequest :: nat where "StatusBadRequest \<equiv> 400"
abbreviation StatusNotFound :: nat where "StatusNotFound \<equiv> 404"
abbreviation StatusInternalServerError :: nat where "StatusInternalServerError \<equiv> 500"

text \<open>Modelled from the spec: the injector of package \<open>inject\<close>, whose declaration is not
  among the sources; it carries the database connection. A handler receives it as a value
  of the empty interface, which may hold something else.\<close>

record Injector =
  MongoInstance :: MongoInstance

datatype object = InjectorObject Injector | OtherObject

text \<open>Go's \<open>error\<close> values, as the handlers meet them.\<close>

datatype error = StoreError store_error | Errorf string | UnmarshalError

section \<open>The library functions the handlers call\<close>

text \<open>
  \<open>strconv.Atoi\<close>: an optional sign, then at least one decimal digit and nothing else; the
  value has to fit Go's \<open>int\<close>, whose width \<open>intSize\<close> (32 or 64 bits) depends on the
  platform the service is built for.
\<close>

definition digit :: "char \<Rightarrow> nat option" where
  "digit c = (let n = (of_char c :: nat) in if 48 \<le> n \<and> n \<le> 57 then Some (n - 48) else None)"

fun digits_value :: "string \<Rightarrow> nat \<Rightarrow> nat option" where
  "digits_value [] n = Some n"
| "digits_value (c # cs) n =
     (case digit c of None \<Rightarrow> None | Some k \<Rightarrow> digits_value cs (n * 10 + k))"

definition Atoi :: "nat \<Rightarrow> string \<Rightarrow> int option" where
  "Atoi intSize s =
    (case s of
       [] \<Rightarrow> None
     | c # cs \<Rightarrow>
        (let neg = (c = CHR ''-'');
             ds = (if c = CHR ''-'' \<or> c = CHR ''+'' then cs else s)
         in if ds = [] then None
            else
             (case digits_value ds 0 of
                None \<Rightarrow> None
              | Some n \<Rightarrow>
                 (let v = (if neg then - int n else int n)
                  in if - (2 ^ (intSize - 1)) \<le> v \<and> v < 2 ^ (intSize - 1) then Some v
                     else None))))"

text \<open>
  The other library functions are parameters of the handlers that call them:
  \<open>uuid_Parse\<close> tells whether \<open>uuid.Parse\<close> accepts a string, \<open>TrimSpace\<close> is
  \<open>strings.TrimSpace\<close>, \<open>json_Unmarshal\<close> is \<open>json.Unmarshal\<close> into the endpoint's body
  (\<open>None\<close> when it fails), and \<open>uuid_New\<close> is the string of the identifier that
  \<open>uuid.New\<close> generates for the request.
\<close>

section \<open>GET /albums (package getalbums)\<close>

definition getalbums_GetSafeInjector :: "object \<Rightarrow> error + Injector" where
  "getalbums_GetSafeInjector obj =
    (case obj of
       InjectorObject injector \<Rightarrow> Inr injector
     | OtherObject \<Rightarrow> Inl (Errorf ''getalbums: failed to deduce injector''))"

definition CreateFilterFromQueryParameters :: "nat \<Rightarrow> APIRequest \<Rightarrow> Filter" where
  "CreateFilterFromQueryParameters intSize request =
    (let andFilter = ([] :: IQuery list);
         realLimit = (case QueryParameters request ''limit'' of
                        None \<Rightarrow> None
                      | Some limit \<Rightarrow> Atoi intSize limit);
         resultFilter = \<lparr>Filter.Root = None, Filter.Limit = 0\<rparr>;
         resultFilter = (case realLimit of
                           Some n \<Rightarrow> resultFilter\<lparr>Filter.Limit := word_of_int n\<rparr>
                         | None \<Rightarrow> resultFilter);
         resultFilter = (if length andFilter > 0
                         then resultFilter\<lparr>Filter.Root := Some (FilterOperatorAnd andFilter)\<rparr>
                         else resultFilter)
     in resultFilter)"

definition getalbums_Handler :: "nat \<Rightarrow> 't Shape \<Rightarrow> APIRequest \<Rightarrow> object \<Rightarrow> 't APIResponse" where
  "getalbums_Handler intSize TrackInfo request obj =
    (case getalbums_GetSafeInjector obj of
       Inl err \<Rightarrow> \<lparr>StatusCode = StatusInternalServerError, Body = NoBody\<rparr>
     | Inr injector \<Rightarrow>
        (let store = NewMongoStore TrackInfo ''gostream'' ''albums'';
             filter = CreateFilterFromQueryParameters intSize request
         in case FindItems store (MongoInstance injector) filter of
              Inl err \<Rightarrow> \<lparr>StatusCode = StatusInternalServerError, Body = NoBody\<rparr>
            | Inr items \<Rightarrow> \<lparr>StatusCode = StatusOK, Body = ItemsBody items\<rparr>))"

section \<open>GET /albums/:id (package getalbum)\<close>

definition getalbum_GetSafeInjector :: "object \<Rightarrow> error + Injector" where
  "getalbum_GetSafeInjector obj =
    (case obj of
       InjectorObject injector \<Rightarrow> Inr injector
     | OtherObject \<Rightarrow> Inl (Errorf ''getalbum: failed to deduce injector''))"

definition getalbum_Handler :: "APIRequest \<Rightarrow> object \<Rightarrow> 't APIResponse" where
  "getalbum_Handler request obj =
    (case getalbum_GetSafeInjector obj of
       Inl err \<Rightarrow> \<lparr>StatusCode = StatusInternalServerError, Body = NoBody\<rparr>
     | Inr injector \<Rightarrow>
        (let store = NewMongoStore AlbumInfo_shape ''gostream'' ''albums'';
             filter = \<lparr>Filter.Root = Some (FilterOperatorEq ''_id''
                                            (BString (index (PathParameters request) ''id''))),
                       Filter.Limit = 10\<rparr>
         in case FindItems store (MongoInstance injector) filter of
              Inl err \<Rightarrow> \<lparr>StatusCode = StatusInternalServerError, Body = NoBody\<rparr>
            | Inr items \<Rightarrow>
               (case items of
                  [] \<Rightarrow> \<lparr>StatusCode = StatusNotFound, Body = NoBody\<rparr>
                | resultItem # rest \<Rightarrow> \<lparr>StatusCode = StatusOK, Body = AlbumBody resultItem\<rparr>)))"

section \<open>DELETE /albums/:id (package deletealbum)\<close>

definition deletealbum_GetSafeInjector :: "object \<Rightarrow> error + Injector" where
  "deletealbum_GetSafeInjector obj =
    (case obj of
       InjectorObject injector \<Rightarrow> Inr injector
     | OtherObject \<Rightarrow> Inl (Errorf ''deletealbum: failed to deduce injector''))"

text \<open>A handler that writes returns the response and the object with the database as the
  handler leaves it.\<close>

definition deletealbum_Handler :: "'t Shape \<Rightarrow> APIRequest \<Rightarrow> object \<Rightarrow> 't APIResponse \<times> object" where
  "deletealbum_Handler TrackInfo request obj =
    (case deletealbum_GetSafeInjector obj of
       Inl err \<Rightarrow> (\<lparr>StatusCode = StatusInternalServerError, Body = NoBody\<rparr>, obj)
     | Inr injector \<Rightarrow>
        (let idToDelete = index (PathParameters request) ''id'';
             store = NewMongoStore TrackInfo ''gostream'' ''albums''
         in case DeleteItem store (MongoInstance injector) idToDelete of
              Inl err \<Rightarrow> (\<lparr>StatusCode = StatusInternalServerError, Body = NoBody\<rparr>, obj)
            | Inr (count, inst) \<Rightarrow>
               (if count = 0
                then (\<lparr>StatusCode = StatusNoContent, Body = NoBody\<rparr>,
                      InjectorObject (injector\<lparr>MongoInstance := inst\<rparr>))
                else (\<lparr>StatusCode = StatusAccepted, Body = NoBody\<rparr>,
                      InjectorObject (injector\<lparr>MongoInstance := inst\<rparr>)))))"

section \<open>PUT /albums/:id (package updatealbum)\<close>

record UpdateAlbumStatsRequestBody =
  Popularity :: rat

record UpdateAlbumRequestBody =
  Title :: string
  TrackIDs :: "string list"
  Stats :: UpdateAlbumStatsRequestBody

definition updatealbum_GetSafeInjector :: "object \<Rightarrow> error + Injector" where
  "updatealbum_GetSafeInjector obj =
    (case obj of
       InjectorObject injector \<Rightarrow> Inr injector
     | OtherObject \<Rightarrow> Inl (Errorf ''updatealbum: failed to deduce injector''))"

definition updatealbum_ExtractRequestBody ::
  "(string \<Rightarrow> UpdateAlbumRequestBody option) \<Rightarrow> APIRequest \<Rightarrow> error + UpdateAlbumRequestBody" where
  "updatealbum_ExtractRequestBody json_Unmarshal request =
    (case json_Unmarshal (APIRequest.Body request) of
       None \<Rightarrow> Inl UnmarshalError
     | Some body \<Rightarrow> Inr body)"

definition GetAndValidateID ::
  "(string \<Rightarrow> bool) \<Rightarrow> APIRequest \<Rightarrow> UpdateAlbumPathValidationError + string" where
  "GetAndValidateID uuid_Parse request =
    (let id' = index (PathParameters request) ''id''
     in if \<not> uuid_Parse id'
        then Inl \<lparr>UpdateAlbumPathValidationError.PathRef = '':id'',
                  UpdateAlbumPathValidationError.ErrorMessage = ''value is not a valid uuid''\<rparr>
        else Inr id')"

definition updatealbum_ValidateAlbumStatsRequestBody ::
  "UpdateAlbumStatsRequestBody \<Rightarrow> UpdateAlbumValidationError option" where
  "updatealbum_ValidateAlbumStatsRequestBody request = None"

text \<open>The loop over the trimmed track identifiers: the first one that is no UUID ends it.\<close>

fun updatealbum_validate_trackIDs ::
  "(string \<Rightarrow> bool) \<Rightarrow> string list \<Rightarrow> UpdateAlbumValidationError option" where
  "updatealbum_validate_trackIDs uuid_Parse [] = None"
| "updatealbum_validate_trackIDs uuid_Parse (trackID # rest) =
     (if \<not> uuid_Parse trackID
      then Some \<lparr>UpdateAlbumValidationError.FieldRef = ''trackIDs'',
                 UpdateAlbumValidationError.ErrorMessage = ''array contains invalid uuid''\<rparr>
      else updatealbum_validate_trackIDs uuid_Parse rest)"

definition updatealbum_ValidateRequestBody ::
  "(string \<Rightarrow> bool) \<Rightarrow> (string \<Rightarrow> string) \<Rightarrow> UpdateAlbumRequestBody
     \<Rightarrow> UpdateAlbumValidationError option" where
  "updatealbum_ValidateRequestBody uuid_Parse TrimSpace request =
    (if UpdateAlbumRequestBody.Title request \<noteq> []
        \<and> length (TrimSpace (UpdateAlbumRequestBody.Title request)) = 0
     then Some \<lparr>UpdateAlbumValidationError.FieldRef = ''title'',
                UpdateAlbumValidationError.ErrorMessage = ''value is not a valid uuid''\<rparr>
     else
      (case (if length (UpdateAlbumRequestBody.TrackIDs request) > 0
             then updatealbum_validate_trackIDs uuid_Parse
                    (map TrimSpace (UpdateAlbumRequestBody.TrackIDs request))
             else None) of
         Some err \<Rightarrow> Some err
       | None \<Rightarrow> updatealbum_ValidateAlbumStatsRequestBody (UpdateAlbumRequestBody.Stats request)))"

definition FindAlbumByID :: "AlbumInfo MongoStore \<Rightarrow> MongoInstance \<Rightarrow> string \<Rightarrow> error + AlbumInfo" where
  "FindAlbumByID store inst id' =
    (let filter = \<lparr>Filter.Root = Some (FilterOperatorEq ''_id'' (BString id')), Filter.Limit = 1\<rparr>
     in case FindItems store inst filter of
          Inl err \<Rightarrow> Inl (StoreError err)
        | Inr items \<Rightarrow>
           (case items of
              [] \<Rightarrow> Inl (Errorf ''updatealbum: album not found'')
            | item # rest \<Rightarrow> Inr item))"

definition updatealbum_CheckIfTrackExists :: "'t MongoStore \<Rightarrow> MongoInstance \<Rightarrow> string \<Rightarrow> error option" where
  "updatealbum_CheckIfTrackExists store inst trackID =
    (let filter = \<lparr>Filter.Root = Some (FilterOperatorEq ''_id'' (BString trackID)), Filter.Limit = 1\<rparr>
     in case FindItems store inst filter of
          Inl err \<Rightarrow> Some (StoreError err)
        | Inr items \<Rightarrow> (if length items = 0 then Some (Errorf ''track not found'') else None))"

text \<open>The handler's loop over the requested track identifiers: the first one that is not
  found ends it.\<close>

fun updatealbum_check_tracks :: "'t MongoStore \<Rightarrow> MongoInstance \<Rightarrow> string list \<Rightarrow> error option" where
  "updatealbum_check_tracks store inst [] = None"
| "updatealbum_check_tracks store inst (trackID # rest) =
     (case updatealbum_CheckIfTrackExists store inst trackID of
        Some err \<Rightarrow> Some err
      | None \<Rightarrow> updatealbum_check_tracks store inst rest)"

definition updatealbum_Handler ::
  "(string \<Rightarrow> bool) \<Rightarrow> (string \<Rightarrow> string) \<Rightarrow> (string \<Rightarrow> UpdateAlbumRequestBody option)
     \<Rightarrow> 't Shape \<Rightarrow> APIRequest \<Rightarrow> object \<Rightarrow> 't APIResponse \<times> object" where
  "updatealbum_Handler uuid_Parse TrimSpace json_Unmarshal TrackInfo request obj =
    (case updatealbum_GetSafeInjector obj of
       Inl err \<Rightarrow> (\<lparr>StatusCode = StatusInternalServerError, Body = NoBody\<rparr>, obj)
     | Inr injector \<Rightarrow>
    (case GetAndValidateID uuid_Parse request of
       Inl validationErr \<Rightarrow>
         (\<lparr>StatusCode = StatusBadRequest, Body = UpdatePathValidationBody validationErr\<rparr>, obj)
     | Inr id' \<Rightarrow>
    (let trackStore = NewMongoStore TrackInfo ''gostream'' ''tracks'';
         albumStore = NewMongoStore AlbumInfo_shape ''gostream'' ''albums''
     in
    (case FindAlbumByID albumStore (MongoInstance injector) id' of
       Inl err \<Rightarrow> (\<lparr>StatusCode = StatusNotFound, Body = NoBody\<rparr>, obj)
     | Inr albumInfo \<Rightarrow>
    (case updatealbum_ExtractRequestBody json_Unmarshal request of
       Inl err \<Rightarrow>
         (\<lparr>StatusCode = StatusBadRequest,
           Body = UpdateErrorBody \<lparr>UpdateAlbumErrorResponseBody.Message = ''invalid request body''\<rparr>\<rparr>,
          obj)
     | Inr requestBody \<Rightarrow>
    (case updatealbum_ValidateRequestBody uuid_Parse TrimSpace requestBody of
       Some validationError \<Rightarrow>
         (\<lparr>StatusCode = StatusBadRequest, Body = UpdateValidationBody validationError\<rparr>, obj)
     | None \<Rightarrow>
    (case (if length (UpdateAlbumRequestBody.TrackIDs requestBody) > 0
           then updatealbum_check_tracks trackStore (MongoInstance injector)
                  (UpdateAlbumRequestBody.TrackIDs requestBody)
           else None) of
       Some err \<Rightarrow>
         (\<lparr>StatusCode = StatusBadRequest,
           Body = UpdateErrorBody \<lparr>UpdateAlbumErrorResponseBody.Message = ''track does not exist''\<rparr>\<rparr>,
          obj)
     | None \<Rightarrow>
    (let albumInfo =
           (if UpdateAlbumRequestBody.Title requestBody \<noteq> []
            then albumInfo\<lparr>AlbumInfo.Title := UpdateAlbumRequestBody.Title requestBody\<rparr>
            else albumInfo);
         albumInfo =
           (if length (UpdateAlbumRequestBody.TrackIDs requestBody) > 0
            then albumInfo\<lparr>AlbumInfo.TrackIDs := UpdateAlbumRequestBody.TrackIDs requestBody\<rparr>
            else albumInfo);
         albumInfo =
           (if UpdateAlbumStatsRequestBody.Popularity (UpdateAlbumRequestBody.Stats requestBody) \<noteq> 0
            then albumInfo\<lparr>AlbumInfo.Stats := (AlbumInfo.Stats albumInfo)
                    \<lparr>AlbumStats.Popularity :=
                       UpdateAlbumStatsRequestBody.Popularity (UpdateAlbumRequestBody.Stats requestBody)\<rparr>\<rparr>
            else albumInfo);
         updateFilter = \<lparr>Filter.Root = Some (FilterOperatorEq ''_id'' (BString id')), Filter.Limit = 0\<rparr>;
         updateOperator =
           \<lparr>Update.Root = UpdateOperatorSet
              [(''title'', BString (AlbumInfo.Title albumInfo)),
               (''trackIds'', BArray (map BString (AlbumInfo.TrackIDs albumInfo))),
               (''stats.popularity'', BDouble (AlbumStats.Popularity (AlbumInfo.Stats albumInfo)))]\<rparr>
     in
    (case UpdateItem albumStore (MongoInstance injector) updateFilter updateOperator of
       Inl err \<Rightarrow> (\<lparr>StatusCode = StatusInternalServerError, Body = NoBody\<rparr>, obj)
     | Inr (count, inst) \<Rightarrow>
        (if count = 0
         then (\<lparr>StatusCode = StatusNoContent, Body = NoBody\<rparr>,
               InjectorObject (injector\<lparr>MongoInstance := inst\<rparr>))
         else (\<lparr>StatusCode = StatusNoContent, Body = NoBody\<rparr>,
               InjectorObject (injector\<lparr>MongoInstance := inst\<rparr>))))))))))))"

section \<open>POST /albums (package createalbum)\<close>

record CreateAlbumStatsRequestBody =
  Popularity :: rat

record CreateAlbumRequestBody =
  Title :: string
  TrackIDs :: "string list"
  Stats :: CreateAlbumStatsRequestBody

definition createalbum_GetSafeInjector :: "object \<Rightarrow> error + Injector" where
  "createalbum_GetSafeInjector obj =
    (case obj of
       InjectorObject injector \<Rightarrow> Inr injector
     | OtherObject \<Rightarrow> Inl (Errorf ''createalbum: failed to deduce injector''))"

definition createalbum_ExtractRequestBody ::
  "(string \<Rightarrow> CreateAlbumRequestBody option) \<Rightarrow> APIRequest \<Rightarrow> error + CreateAlbumRequestBody" where
  "createalbum_ExtractRequestBody json_Unmarshal request =
    (case json_Unmarshal (APIRequest.Body request) of
       None \<Rightarrow> Inl UnmarshalError
     | Some body \<Rightarrow> Inr body)"

definition createalbum_ValidateAlbumStatsRequestBody ::
  "CreateAlbumStatsRequestBody \<Rightarrow> CreateAlbumValidationError option" where
  "createalbum_ValidateAlbumStatsRequestBody request = None"

fun createalbum_validate_trackIds ::
  "(string \<Rightarrow> bool) \<Rightarrow> string list \<Rightarrow> CreateAlbumValidationError option" where
  "createalbum_validate_trackIds uuid_Parse [] = None"
| "createalbum_validate_trackIds uuid_Parse (trackID # rest) =
     (if \<not> uuid_Parse trackID
      then Some \<lparr>CreateAlbumValidationError.FieldRef = ''trackIds'',
                 CreateAlbumValidationError.ErrorMessage = ''array value must be valid uuid''\<rparr>
      else createalbum_validate_trackIds uuid_Parse rest)"

definition createalbum_ValidateRequestBody ::
  "(string \<Rightarrow> bool) \<Rightarrow> (string \<Rightarrow> string) \<Rightarrow> CreateAlbumRequestBody
     \<Rightarrow> CreateAlbumValidationError option" where
  "createalbum_ValidateRequestBody uuid_Parse TrimSpace request =
    (let title = TrimSpace (CreateAlbumRequestBody.Title request);
         trackIds = map TrimSpace (CreateAlbumRequestBody.TrackIDs request)
     in if length title = 0
        then Some \<lparr>CreateAlbumValidationError.FieldRef = ''title'',
                   CreateAlbumValidationError.ErrorMessage = ''value must not be empty''\<rparr>
        else
         (case createalbum_validate_trackIds uuid_Parse trackIds of
            Some err \<Rightarrow> Some err
          | None \<Rightarrow> createalbum_ValidateAlbumStatsRequestBody (CreateAlbumRequestBody.Stats request)))"

definition createalbum_CheckIfTrackExists :: "'t MongoStore \<Rightarrow> MongoInstance \<Rightarrow> string \<Rightarrow> error option" where
  "createalbum_CheckIfTrackExists store inst trackID =
    (let filter = \<lparr>Filter.Root = Some (FilterOperatorEq ''_id'' (BString trackID)), Filter.Limit = 1\<rparr>
     in case FindItems store inst filter of
          Inl err \<Rightarrow> Some (StoreError err)
        | Inr items \<Rightarrow> (if length items = 0 then Some (Errorf ''track not found'') else None))"

fun createalbum_check_tracks :: "'t MongoStore \<Rightarrow> MongoInstance \<Rightarrow> string list \<Rightarrow> error option" where
  "createalbum_check_tracks store inst [] = None"
| "createalbum_check_tracks store inst (trackID # rest) =
     (case createalbum_CheckIfTrackExists store inst trackID of
        Some err \<Rightarrow> Some err
      | None \<Rightarrow> createalbum_check_tracks store inst rest)"

definition createalbum_Handler ::
  "(string \<Rightarrow> bool) \<Rightarrow> (string \<Rightarrow> string) \<Rightarrow> (string \<Rightarrow> CreateAlbumRequestBody option)
     \<Rightarrow> string \<Rightarrow> 't Shape \<Rightarrow> APIRequest \<Rightarrow> object \<Rightarrow> 't APIResponse \<times> object" where
  "createalbum_Handler uuid_Parse TrimSpace json_Unmarshal uuid_New TrackInfo request obj =
    (case createalbum_GetSafeInjector obj of
       Inl err \<Rightarrow> (\<lparr>StatusCode = StatusInternalServerError, Body = NoBody\<rparr>, obj)
     | Inr injector \<Rightarrow>
    (case createalbum_ExtractRequestBody json_Unmarshal request of
       Inl err \<Rightarrow>
         (\<lparr>StatusCode = StatusBadRequest,
           Body = CreateErrorBody \<lparr>CreateAlbumErrorResponseBody.Message = ''invalid request body''\<rparr>\<rparr>,
          obj)
     | Inr requestBody \<Rightarrow>
    (case createalbum_ValidateRequestBody uuid_Parse TrimSpace requestBody of
       Some validationError \<Rightarrow>
         (\<lparr>StatusCode = StatusBadRequest, Body = CreateValidationBody validationError\<rparr>, obj)
     | None \<Rightarrow>
    (let trackStore = NewMongoStore TrackInfo ''gostream'' ''tracks'';
         albumStore = NewMongoStore AlbumInfo_shape ''gostream'' ''albums''
     in
    (case createalbum_check_tracks trackStore (MongoInstance injector)
            (CreateAlbumRequestBody.TrackIDs requestBody) of
       Some err \<Rightarrow>
         (\<lparr>StatusCode = StatusBadRequest,
           Body = CreateErrorBody \<lparr>CreateAlbumErrorResponseBody.Message = ''track does not exist''\<rparr>\<rparr>,
          obj)
     | None \<Rightarrow>
    (let albumInfo =
           \<lparr>AlbumInfo.ID = uuid_New,
            AlbumInfo.Title = CreateAlbumRequestBody.Title requestBody,
            AlbumInfo.TrackIDs = CreateAlbumRequestBody.TrackIDs requestBody,
            AlbumInfo.Stats =
              \<lparr>AlbumStats.Popularity =
                 CreateAlbumStatsRequestBody.Popularity (CreateAlbumRequestBody.Stats requestBody)\<rparr>\<rparr>
     in
    (case CreateItem albumStore (MongoInstance injector) albumInfo of
       Inl err \<Rightarrow> (\<lparr>StatusCode = StatusInternalServerError, Body = NoBody\<rparr>, obj)
     | Inr inst \<Rightarrow>
        (\<lparr>StatusCode = StatusOK, Body = AlbumBody albumInfo\<rparr>,
         InjectorObject (injector\<lparr>MongoInstance := inst\<rparr>)))))))))"

section \<open>The tracks of an album (package getalbumtracks)\<close>

definition getalbumtracks_GetSafeInjector :: "object \<Rightarrow> error + Injector" where
  "getalbumtracks_GetSafeInjector obj =
    (case obj of
       InjectorObject injector \<Rightarrow> Inr injector
     | OtherObject \<Rightarrow> Inl (Errorf ''getalbumtracks: failed to deduce injector''))"

text \<open>The loop that collects one equality predicate per track identifier.\<close>

fun track_filters :: "string list \<Rightarrow> IQuery list \<Rightarrow> IQuery list" where
  "track_filters [] filters = filters"
| "track_filters (trackID # rest) filters =
     track_filters rest (filters @ [FilterOperatorEq ''_id'' (BString trackID)])"

definition FindTracksForAlbum :: "'t MongoStore \<Rightarrow> MongoInstance \<Rightarrow> AlbumInfo \<Rightarrow> error + 't list" where
  "FindTracksForAlbum store inst album =
    (let filter = \<lparr>Filter.Root = None, Filter.Limit = 0\<rparr>;
         filters = track_filters (AlbumInfo.TrackIDs album) [];
         or = FilterOperatorOr filters;
         filter = filter\<lparr>Filter.Root := Some or\<rparr>
     in case FindItems store inst filter of
          Inl err \<Rightarrow> Inl (StoreError err)
        | Inr tracks \<Rightarrow> Inr tracks)"

definition getalbumtracks_Handler :: "'t Shape \<Rightarrow> APIRequest \<Rightarrow> object \<Rightarrow> 't APIResponse" where
  "getalbumtracks_Handler TrackInfo request obj =
    (case getalbumtracks_GetSafeInjector obj of
       Inl err \<Rightarrow> \<lparr>StatusCode = StatusInternalServerError, Body = NoBody\<rparr>
     | Inr injector \<Rightarrow>
        (let albumStore = NewMongoStore AlbumInfo_shape ''gostream'' ''albums'';
             trackStore = NewMongoStore TrackInfo ''gostream'' ''tracks'';
             filter = \<lparr>Filter.Root = Some (FilterOperatorEq ''_id''
                                            (BString (index (PathParameters request) ''id''))),
                       Filter.Limit = 10\<rparr>
         in case FindItems albumStore (MongoInstance injector) filter of
              Inl err \<Rightarrow> \<lparr>StatusCode = StatusInternalServerError, Body = NoBody\<rparr>
            | Inr items \<Rightarrow>
               (case items of
                  [] \<Rightarrow> \<lparr>StatusCode = StatusNotFound, Body = NoBody\<rparr>
                | resultItem # rest \<Rightarrow>
                   (if length (AlbumInfo.TrackIDs resultItem) = 0
                    then \<lparr>StatusCode = StatusOK, Body = ItemsBody []\<rparr>
                    else
                     (case FindTracksForAlbum trackStore (MongoInstance injector) resultItem of
                        Inl err \<Rightarrow> \<lparr>StatusCode = StatusInternalServerError, Body = NoBody\<rparr>
                      | Inr tracks \<Rightarrow> \<lparr>StatusCode = StatusOK, Body = ItemsBody tracks\<rparr>)))))"

section \<open>Process start (package main)\<close>

text \<open>
  How the process ends: \<open>log.Fatalf\<close> ends it at once with the message, otherwise \<open>main\<close>
  returns after the router engine has served, with the injector the routes were given.
\<close>

datatype outcome = Fatal string | Served "(string \<times> string) list" Injector

text \<open>
  The environment lookups of package \<open>env\<close>, the connection manager \<open>store.NewMongoInstance\<close>
  and the launch of the router engine are parameters: \<open>GetEnvironmentVariable\<close> gives \<open>None\<close>
  when it returns an error, \<open>NewMongoInstance\<close> gives the error or the connection, and
  \<open>engine_Run\<close> takes the routes, the injector and the port and gives the error it returns, if
  any.
\<close>

definition main ::
  "(string \<Rightarrow> string option) \<Rightarrow> (string \<Rightarrow> string \<Rightarrow> string) \<Rightarrow> (string \<Rightarrow> string + MongoInstance)
     \<Rightarrow> ((string \<times> string) list \<Rightarrow> Injector \<Rightarrow> nat \<Rightarrow> string option) \<Rightarrow> outcome" where
  "main GetEnvironmentVariable GetEnvironmentVariableWithFallback NewMongoInstance engine_Run =
    (case GetEnvironmentVariable ''MONGO_USERNAME'' of
       None \<Rightarrow> Fatal ''Cannot retrieve mongo username via environment variable''
     | Some mongoUsername \<Rightarrow>
    (case GetEnvironmentVariable ''MONGO_PASSWORD'' of
       None \<Rightarrow> Fatal ''Cannot retrieve mongo password via environment variable''
     | Some mongoPassword \<Rightarrow>
    (let mongoHost = GetEnvironmentVariableWithFallback ''MONGO_HOST'' ''127.0.0.1:27017'';
         connectionURI = ''mongodb://'' @ mongoUsername @ '':'' @ mongoPassword @ ''@'' @ mongoHost
     in
    (case NewMongoInstance connectionURI of
       Inl err \<Rightarrow> Fatal (''failed to connect to mongo instance: '' @ err)
     | Inr instance \<Rightarrow>
        (let injector = \<lparr>MongoInstance = instance\<rparr>;
             routes = [(''GET'', ''/albums''), (''GET'', ''/albums/:id''), (''POST'', ''/albums''),
                       (''PUT'', ''/albums/:id''), (''DELETE'', ''/albums/:id'')]
         in case engine_Run routes injector 9871 of
              Some err \<Rightarrow> Fatal (''failed to launch router engine: '' @ err)
            | None \<Rightarrow> Served routes injector)))))"

section \<open>Notions used to state the properties\<close>



section \<open>Example data\<close>

text \<open>A small track shape, two albums and two tracks, on which the properties below are
  evaluated.\<close>

definition example_TrackInfo :: "(string \<times> string) Shape" where
  "example_TrackInfo =
    \<lparr>Decode = (\<lambda>d. case decode_string (map_of d ''_id'') of
                       None \<Rightarrow> None
                     | Some i \<Rightarrow>
                        (case decode_string (map_of d ''artistId'') of
                           None \<Rightarrow> None
                         | Some a \<Rightarrow> Some (i, a))),
     Encode = (\<lambda>t. [(''_id'', BString (fst t)), (''artistId'', BString (snd t))])\<rparr>"

definition example_album :: AlbumInfo where
  "example_album = \<lparr>AlbumInfo.ID = ''a1'', AlbumInfo.Title = ''X'',
                     AlbumInfo.TrackIDs = [''t1'', ''t2''],
                     AlbumInfo.Stats = \<lparr>AlbumStats.Popularity = 1 / 2\<rparr>\<rparr>"

definition example_empty_album :: AlbumInfo where
  "example_empty_album = \<lparr>AlbumInfo.ID = ''b2'', AlbumInfo.Title = ''Z'',
                           AlbumInfo.TrackIDs = [],
                           AlbumInfo.Stats = \<lparr>AlbumStats.Popularity = 0\<rparr>\<rparr>"

definition example_albums :: "document list" where
  "example_albums = [AlbumInfo_encode example_album, AlbumInfo_encode example_empty_album]"

definition example_tracks :: "document list" where
  "example_tracks =
    [[(''_id'', BString ''t1''), (''artistId'', BString ''r1'')],
     [(''_id'', BString ''t2''), (''artistId'', BString ''r1'')]]"

definition example_instance :: MongoInstance where
  "example_instance =
    \<lparr>Reachable = True,
     Documents = (\<lambda>key. if key = (''gostream'', ''albums'') then example_albums
                        else if key = (''gostream'', ''tracks'') then example_tracks
                        else [])\<rparr>"

definition empty_instance :: MongoInstance where
  "empty_instance = \<lparr>Reachable = True, Documents = (\<lambda>key. [])\<rparr>"

definition example_injector :: Injector where
  "example_injector = \<lparr>MongoInstance = example_instance\<rparr>"

definition example_request :: "string \<Rightarrow> string \<Rightarrow> APIRequest" where
  "example_request i body =
    \<lparr>Method = ''GET'', Path = ''/albums'', PathParameters = [''id'' \<mapsto> i],
     QueryParameters = Map.empty, APIRequest.Body = body\<rparr>"

definition limit_request :: "string \<Rightarrow> APIRequest" where
  "limit_request limit =
    \<lparr>Method = ''GET'', Path = ''/albums'', PathParameters = Map.empty,
     QueryParameters = [''limit'' \<mapsto> limit], APIRequest.Body = []\<rparr>"

definition example_update :: UpdateAlbumRequestBody where
  "example_update = \<lparr>UpdateAlbumRequestBody.Title = ''Y'', UpdateAlbumRequestBody.TrackIDs = [],
      UpdateAlbumRequestBody.Stats = \<lparr>UpdateAlbumStatsRequestBody.Popularity = 0\<rparr>\<rparr>"

definition example_unmarshal_update :: "string \<Rightarrow> UpdateAlbumRequestBody option" where
  "example_unmarshal_update body = (if body = ''title: Y'' then Some example_update else None)"

definition example_track_update :: UpdateAlbumRequestBody where
  "example_track_update = \<lparr>UpdateAlbumRequestBody.Title = [], UpdateAlbumRequestBody.TrackIDs = [''t2''],
      UpdateAlbumRequestBody.Stats = \<lparr>UpdateAlbumStatsRequestBody.Popularity = 0\<rparr>\<rparr>"

definition example_unmarshal_track_update :: "string \<Rightarrow> UpdateAlbumRequestBody option" where
  "example_unmarshal_track_update body =
     (if body = ''trackIds: t2'' then Some example_track_update else None)"

definition example_create :: CreateAlbumRequestBody where
  "example_create = \<lparr>CreateAlbumRequestBody.Title = ''N'', CreateAlbumRequestBody.TrackIDs = [''t1''],
      CreateAlbumRequestBody.Stats = \<lparr>CreateAlbumStatsRequestBody.Popularity = 0\<rparr>\<rparr>"

definition example_unmarshal_create :: "string \<Rightarrow> CreateAlbumRequestBody option" where
  "example_unmarshal_create body = (if body = ''title: N, trackIds: t1'' then Some example_create else None)"

definition example_created :: AlbumInfo where
  "example_created = \<lparr>AlbumInfo.ID = ''c3'', AlbumInfo.Title = ''N'',
                       AlbumInfo.TrackIDs = [''t1''],
                       AlbumInfo.Stats = \<lparr>AlbumStats.Popularity = 0\<rparr>\<rparr>"

lemmas example_defs = example_TrackInfo_def example_album_def example_empty_album_def
  example_albums_def example_tracks_def example_instance_def empty_instance_def
  example_injector_def example_request_def limit_request_def example_update_def
  example_unmarshal_update_def example_track_update_def example_unmarshal_track_update_def
  example_create_def example_unmarshal_create_def example_created_def

lemmas store_defs = FindItems_def DeleteItem_def CreateItem_def UpdateItem_def NewMongoStore_def
  collection_of_def put_collection_def filter_matches_def apply_limit_def AlbumInfo_shape_def
  AlbumInfo_decode_def AlbumInfo_encode_def decode_string_def decode_strings_def decode_float_def
  index_def

section \<open>The filter built from the query parameters\<close>

lemma Atoi_range:
  assumes "Atoi intSize s = Some n"
  shows "- (2 ^ (intSize - 1)) \<le> n \<and> n < 2 ^ (intSize - 1)"
  using assms
  by (auto simp: Atoi_def Let_def split: list.splits if_splits option.splits)

lemma Limit_parsed:
  assumes "QueryParameters request ''limit'' = Some l" and "Atoi intSize l = Some n"
  shows "Filter.Limit (CreateFilterFromQueryParameters intSize request) = word_of_int n"
  using assms by (simp add: CreateFilterFromQueryParameters_def)

lemma filter_matches_Eq:
  "filter_matches \<lparr>Filter.Root = Some (FilterOperatorEq k v), Filter.Limit = l\<rparr>
     = (\<lambda>d. map_of d k = Some v)"
  by (rule ext) (simp add: filter_matches_def)

lemma filter_matches_Or_Nil:
  "filter_matches \<lparr>Filter.Root = Some (FilterOperatorOr []), Filter.Limit = l\<rparr> = (\<lambda>d. False)"
  by (rule ext) (simp add: filter_matches_def)

lemma filter_query_parameters:
  "filter (filter_matches (CreateFilterFromQueryParameters intSize request)) docs = docs"
  by (simp add: CreateFilterFromQueryParameters_def filter_matches_def Let_def split: option.splits)

text \<open>
  Claim C3. For every GET /albums request the filter that
  \<open>CreateFilterFromQueryParameters\<close> builds has no root: the conjunction it prepares has no
  clause, and the root is set only for a conjunction with clauses. A filter without a root
  matches every document, and so does a conjunction without clauses; hence the filter of
  a GET /albums request selects the whole collection.
\<close>

theorem empty_conjunction_leaves_root_absent:
  "Filter.Root (CreateFilterFromQueryParameters intSize request) = None
   \<and> filter_matches (CreateFilterFromQueryParameters intSize request) d
   \<and> filter_matches \<lparr>Filter.Root = None, Filter.Limit = l\<rparr> d
   \<and> matches (FilterOperatorAnd []) d
   \<and> filter_matches \<lparr>Filter.Root = Some (FilterOperatorAnd []), Filter.Limit = l\<rparr> d
   \<and> filter (filter_matches (CreateFilterFromQueryParameters intSize request)) docs = docs"
  by (simp add: CreateFilterFromQueryParameters_def filter_matches_def Let_def split: option.splits)

text \<open>On the example data: the filter of a request with \<open>limit=25\<close> has no root and keeps
  both albums.\<close>

theorem empty_conjunction_leaves_root_absent_witness:
  "Filter.Root (CreateFilterFromQueryParameters 64 (limit_request ''25'')) = None
   \<and> filter (filter_matches (CreateFilterFromQueryParameters 64 (limit_request ''25'')))
        example_albums = example_albums"
  using empty_conjunction_leaves_root_absent
    [where intSize = 64 and request = "limit_request ''25''" and docs = example_albums]
  by simp

text \<open>
  Claim C4, as amended. For every GET /albums request the limit of the constructed filter
  is 0 (the value that stands for unbounded) when the \<open>limit\<close> query parameter is absent or
  does not parse as an integer, and is the parsed integer reduced modulo \<open>2^32\<close> when it
  parses; so the limit equals the parsed integer exactly when that integer lies between 0
  and \<open>2^32 - 1\<close>.
\<close>

theorem limit_is_parsed_integer_modulo_2_32:
  "(case QueryParameters request ''limit'' of
      None \<Rightarrow> Filter.Limit (CreateFilterFromQueryParameters intSize request) = 0
    | Some l \<Rightarrow>
       (case Atoi intSize l of
          None \<Rightarrow> Filter.Limit (CreateFilterFromQueryParameters intSize request) = 0
        | Some n \<Rightarrow>
            uint (Filter.Limit (CreateFilterFromQueryParameters intSize request)) = n mod 2 ^ 32
            \<and> (if 0 \<le> n \<and> n < 2 ^ 32
                then uint (Filter.Limit (CreateFilterFromQueryParameters intSize request)) = n
                else uint (Filter.Limit (CreateFilterFromQueryParameters intSize request)) \<noteq> n)))"
proof (cases "QueryParameters request ''limit''")
  case None
  then show ?thesis
    by (simp add: CreateFilterFromQueryParameters_def)
next
  case (Some l)
  show ?thesis
  proof (cases "Atoi intSize l")
    case None
    with Some show ?thesis
      by (simp add: CreateFilterFromQueryParameters_def)
  next
    case (Some n)
    have L: "Filter.Limit (CreateFilterFromQueryParameters intSize request) = word_of_int n"
      using \<open>QueryParameters request ''limit'' = Some l\<close> Some by (rule Limit_parsed)
    have m: "uint (word_of_int n :: 32 word) = n mod 2 ^ 32"
      by (simp add: uint_word_of_int take_bit_eq_mod)
    have "n mod 2 ^ 32 = n \<longleftrightarrow> 0 \<le> n \<and> n < 2 ^ 32"
      by (auto simp: mod_pos_pos_trivial)
    with L m Some \<open>QueryParameters request ''limit'' = Some l\<close> show ?thesis
      by simp
  qed
qed

text \<open>On three requests: \<open>limit=25\<close> gives 25, \<open>limit=abc\<close> gives 0, no parameter gives 0.\<close>

theorem limit_is_parsed_integer_modulo_2_32_witness:
  "uint (Filter.Limit (CreateFilterFromQueryParameters 64 (limit_request ''25''))) = 25
   \<and> Filter.Limit (CreateFilterFromQueryParameters 64 (limit_request ''abc'')) = 0
   \<and> Filter.Limit (CreateFilterFromQueryParameters 64 (example_request [] [])) = 0"
proof -
  have a: "Atoi 64 ''25'' = Some 25" "Atoi 64 ''abc'' = None"
    by (simp_all add: Atoi_def digit_def)
  from limit_is_parsed_integer_modulo_2_32 [where request = "limit_request ''25''" and intSize = 64] a(1)
  have 1: "uint (Filter.Limit (CreateFilterFromQueryParameters 64 (limit_request ''25''))) = 25"
    by (simp add: limit_request_def)
  from limit_is_parsed_integer_modulo_2_32 [where request = "limit_request ''abc''" and intSize = 64] a(2)
  have 2: "Filter.Limit (CreateFilterFromQueryParameters 64 (limit_request ''abc'')) = 0"
    by (simp add: limit_request_def)
  from limit_is_parsed_integer_modulo_2_32
    [where request = "example_request [] []" and intSize = 64]
  have 3: "Filter.Limit (CreateFilterFromQueryParameters 64 (example_request [] [])) = 0"
    by (simp add: example_request_def)
  from 1 2 3 show ?thesis by simp
qed

text \<open>
  Claim C4 as stated fails: the request \<open>limit=-1\<close> parses as the integer \<open>-1\<close>, and the
  limit of the constructed filter is 4294967295, not \<open>-1\<close>.
\<close>

theorem limit_differs_from_parsed_integer:
  "QueryParameters (limit_request ''-1'') ''limit'' = Some ''-1''
   \<and> Atoi 64 ''-1'' = Some (- 1)
   \<and> uint (Filter.Limit (CreateFilterFromQueryParameters 64 (limit_request ''-1''))) = 4294967295
   \<and> uint (Filter.Limit (CreateFilterFromQueryParameters 64 (limit_request ''-1''))) \<noteq> - 1"
  by (simp add: CreateFilterFromQueryParameters_def limit_request_def Atoi_def digit_def
      unsigned_minus_1_eq_mask mask_eq_exp_minus_1)

text \<open>
  Claim C10, as amended. For every GET /albums request whose \<open>limit\<close> query parameter
  parses as a negative integer \<open>n\<close>, the limit of the constructed filter is \<open>n\<close> modulo
  \<open>2^32\<close>, and no error arises. The limit is 0 exactly when \<open>n\<close> is a multiple of \<open>2^32\<close>;
  it is not 0 when \<open>n\<close> is above \<open>-2^32\<close>, which is every negative \<open>n\<close> where Go's \<open>int\<close>
  has at most 32 bits.
\<close>

theorem negative_limit_wraps:
  assumes "QueryParameters request ''limit'' = Some l"
    and "Atoi intSize l = Some n"
    and "n < 0"
  shows "uint (Filter.Limit (CreateFilterFromQueryParameters intSize request)) = n mod 2 ^ 32
    \<and> (Filter.Limit (CreateFilterFromQueryParameters intSize request) = 0 \<longleftrightarrow> 2 ^ 32 dvd n)
    \<and> (- (2 ^ 32) < n \<longrightarrow> Filter.Limit (CreateFilterFromQueryParameters intSize request) \<noteq> 0)
    \<and> (intSize \<le> 32 \<longrightarrow> Filter.Limit (CreateFilterFromQueryParameters intSize request) \<noteq> 0)"
proof -
  let ?L = "Filter.Limit (CreateFilterFromQueryParameters intSize request)"
  have L: "?L = word_of_int n"
    using assms(1,2) by (rule Limit_parsed)
  have a: "uint ?L = n mod 2 ^ 32"
    by (simp add: L uint_word_of_int take_bit_eq_mod)
  have b: "?L = 0 \<longleftrightarrow> 2 ^ 32 dvd n"
    by (simp add: L word_of_int_eq_0_iff)
  have c: "?L \<noteq> 0" if "- (2 ^ 32) < n"
  proof
    assume "?L = 0"
    then have "2 ^ 32 dvd n" using b by simp
    then obtain k where k: "n = 2 ^ 32 * k" by (auto simp: dvd_def)
    with \<open>n < 0\<close> that show False by (cases "k \<le> -1") auto
  qed
  have d: "?L \<noteq> 0" if "intSize \<le> 32"
  proof -
    have "(2::int) ^ (intSize - 1) \<le> 2 ^ 31"
      using that by (intro power_increasing) auto
    moreover have "- (2 ^ (intSize - 1)) \<le> n"
      using Atoi_range [OF assms(2)] by simp
    ultimately have "- (2 ^ 32) < n" by simp
    then show ?thesis by (rule c)
  qed
  from a b c d show ?thesis by blast
qed

text \<open>On the request \<open>limit=-1\<close>: the limit is 4294967295.\<close>

theorem negative_limit_wraps_witness:
  "QueryParameters (limit_request ''-1'') ''limit'' = Some ''-1''
   \<and> Atoi 64 ''-1'' = Some (- 1)
   \<and> (- 1 :: int) < 0
   \<and> uint (Filter.Limit (CreateFilterFromQueryParameters 64 (limit_request ''-1''))) = 4294967295
   \<and> Filter.Limit (CreateFilterFromQueryParameters 64 (limit_request ''-1'')) \<noteq> 0"
proof -
  have p: "QueryParameters (limit_request ''-1'') ''limit'' = Some ''-1''"
    by (simp add: limit_request_def)
  have q: "Atoi 64 ''-1'' = Some (- 1)"
    by (simp add: Atoi_def digit_def)
  have r: "(- 1 :: int) < 0"
    by simp
  from negative_limit_wraps [OF p q r] p q show ?thesis
    by simp
qed

text \<open>
  Claim C10 as stated fails where Go's \<open>int\<close> has 64 bits: the request
  \<open>limit=-4294967296\<close> parses as a negative integer, and the limit of the constructed
  filter is 0.
\<close>

theorem negative_limit_may_be_zero:
  "QueryParameters (limit_request ''-4294967296'') ''limit'' = Some ''-4294967296''
   \<and> Atoi 64 ''-4294967296'' = Some (- 4294967296)
   \<and> (- 4294967296 :: int) < 0
   \<and> Filter.Limit (CreateFilterFromQueryParameters 64 (limit_request ''-4294967296'')) = 0"
  by (simp add: CreateFilterFromQueryParameters_def limit_request_def Atoi_def digit_def)

section \<open>Store operations that match nothing or cannot reach the database\<close>

lemma FindItems_Inr_Reachable: "FindItems store inst f = Inr items \<Longrightarrow> Reachable inst"
  by (simp add: FindItems_def split: if_splits)

lemma FindItems_unreachable: "\<not> Reachable inst \<Longrightarrow> FindItems store inst f = Inl ConnectionError"
  by (simp add: FindItems_def)

lemma find_no_match:
  assumes "Reachable inst"
    and "\<not> list_ex (filter_matches f) (collection_of store inst)"
  shows "FindItems store inst f = Inr []"
proof -
  have "filter (filter_matches f) (collection_of store inst) = []"
    using assms(2) by (simp add: filter_empty_conv list_ex_iff)
  then show ?thesis
    using assms(1) by (simp add: FindItems_def apply_limit_def)
qed

lemma delete_first_absent:
  "\<not> list_ex (\<lambda>d. map_of d ''_id'' = Some (BString i)) docs \<Longrightarrow> delete_first i docs = docs"
  by (induction docs) auto

lemma put_collection_same: "put_collection store inst (collection_of store inst) = inst"
  by (simp add: put_collection_def collection_of_def)

lemma delete_no_match:
  assumes "Reachable inst"
    and "\<not> list_ex (\<lambda>d. map_of d ''_id'' = Some (BString i)) (collection_of store inst)"
  shows "DeleteItem store inst i = Inr (0, inst)"
  using assms by (simp add: DeleteItem_def Let_def delete_first_absent put_collection_same)

text \<open>
  Claim C2. When the store operation of a handler succeeds with zero matching documents,
  the handler answers with a status that is no error: GET /albums/:id answers 404,
  GET /albums answers 200 with the sequence of items the store returned (possibly empty),
  and DELETE /albums/:id answers 204 when the deleted count is 0. The store reports zero
  matches as a success: a reachable database with no document of the requested identifier
  gives the empty sequence and the count 0, and an empty collection gives the empty
  sequence.
\<close>

theorem zero_match_is_not_an_error:
  fixes TrackInfo :: "'t Shape" and injector :: Injector and request :: APIRequest
  defines "inst \<equiv> MongoInstance injector"
    and "i \<equiv> index (PathParameters request) ''id''"
  shows
   "(FindItems (NewMongoStore AlbumInfo_shape ''gostream'' ''albums'') inst
        \<lparr>Filter.Root = Some (FilterOperatorEq ''_id'' (BString i)), Filter.Limit = 10\<rparr> = Inr []
      \<longrightarrow> getalbum_Handler request (InjectorObject injector)
            = (\<lparr>StatusCode = StatusNotFound, Body = NoBody\<rparr> :: 't APIResponse))
    \<and> (FindItems (NewMongoStore TrackInfo ''gostream'' ''albums'') inst
          (CreateFilterFromQueryParameters intSize request) = Inr items
      \<longrightarrow> getalbums_Handler intSize TrackInfo request (InjectorObject injector)
            = \<lparr>StatusCode = StatusOK, Body = ItemsBody items\<rparr>)
    \<and> (DeleteItem (NewMongoStore TrackInfo ''gostream'' ''albums'') inst i = Inr (0, inst')
      \<longrightarrow> deletealbum_Handler TrackInfo request (InjectorObject injector)
            = (\<lparr>StatusCode = StatusNoContent, Body = NoBody\<rparr>,
               InjectorObject (injector\<lparr>MongoInstance := inst'\<rparr>)))
    \<and> (Reachable inst
        \<and> \<not> list_ex (\<lambda>d. map_of d ''_id'' = Some (BString i)) (Documents inst (''gostream'', ''albums''))
      \<longrightarrow> FindItems (NewMongoStore AlbumInfo_shape ''gostream'' ''albums'') inst
            \<lparr>Filter.Root = Some (FilterOperatorEq ''_id'' (BString i)), Filter.Limit = 10\<rparr> = Inr []
          \<and> DeleteItem (NewMongoStore TrackInfo ''gostream'' ''albums'') inst i = Inr (0, inst))
    \<and> (Reachable inst \<and> Documents inst (''gostream'', ''albums'') = []
      \<longrightarrow> FindItems (NewMongoStore TrackInfo ''gostream'' ''albums'') inst
            (CreateFilterFromQueryParameters intSize request) = Inr [])"
proof -
  have a: "getalbum_Handler request (InjectorObject injector)
            = (\<lparr>StatusCode = StatusNotFound, Body = NoBody\<rparr> :: 't APIResponse)"
    if "FindItems (NewMongoStore AlbumInfo_shape ''gostream'' ''albums'') inst
        \<lparr>Filter.Root = Some (FilterOperatorEq ''_id'' (BString i)), Filter.Limit = 10\<rparr> = Inr []"
    using that by (simp add: getalbum_Handler_def getalbum_GetSafeInjector_def inst_def i_def)
  have b: "getalbums_Handler intSize TrackInfo request (InjectorObject injector)
            = \<lparr>StatusCode = StatusOK, Body = ItemsBody items\<rparr>"
    if "FindItems (NewMongoStore TrackInfo ''gostream'' ''albums'') inst
          (CreateFilterFromQueryParameters intSize request) = Inr items"
    using that by (simp add: getalbums_Handler_def getalbums_GetSafeInjector_def inst_def)
  have c: "deletealbum_Handler TrackInfo request (InjectorObject injector)
            = (\<lparr>StatusCode = StatusNoContent, Body = NoBody\<rparr>,
               InjectorObject (injector\<lparr>MongoInstance := inst'\<rparr>))"
    if "DeleteItem (NewMongoStore TrackInfo ''gostream'' ''albums'') inst i = Inr (0, inst')"
    using that by (simp add: deletealbum_Handler_def deletealbum_GetSafeInjector_def inst_def i_def)
  have d: "FindItems (NewMongoStore AlbumInfo_shape ''gostream'' ''albums'') inst
            \<lparr>Filter.Root = Some (FilterOperatorEq ''_id'' (BString i)), Filter.Limit = 10\<rparr> = Inr []
          \<and> DeleteItem (NewMongoStore TrackInfo ''gostream'' ''albums'') inst i = Inr (0, inst)"
    if "Reachable inst"
      and "\<not> list_ex (\<lambda>d. map_of d ''_id'' = Some (BString i)) (Documents inst (''gostream'', ''albums''))"
  proof
    show "FindItems (NewMongoStore AlbumInfo_shape ''gostream'' ''albums'') inst
            \<lparr>Filter.Root = Some (FilterOperatorEq ''_id'' (BString i)), Filter.Limit = 10\<rparr> = Inr []"
      using that
      by (intro find_no_match) (simp_all add: filter_matches_Eq collection_of_def NewMongoStore_def)
    show "DeleteItem (NewMongoStore TrackInfo ''gostream'' ''albums'') inst i = Inr (0, inst)"
      using that
      by (intro delete_no_match) (simp_all add: collection_of_def NewMongoStore_def)
  qed
  have e: "FindItems (NewMongoStore TrackInfo ''gostream'' ''albums'') inst
            (CreateFilterFromQueryParameters intSize request) = Inr []"
    if "Reachable inst" and "Documents inst (''gostream'', ''albums'') = []"
    using that
    by (intro find_no_match) (simp_all add: collection_of_def NewMongoStore_def)
  from a b c d e show ?thesis by blast
qed

text \<open>On the example data: no album has the identifier \<open>zz\<close>, so reading it answers 404 and
  deleting it answers 204 and leaves the database as it was; listing the albums of an
  empty database answers 200 with no item.\<close>

theorem zero_match_is_not_an_error_witness:
  "Reachable example_instance
   \<and> \<not> list_ex (\<lambda>d. map_of d ''_id'' = Some (BString ''zz''))
          (Documents example_instance (''gostream'', ''albums''))
   \<and> getalbum_Handler (example_request ''zz'' []) (InjectorObject example_injector)
        = (\<lparr>StatusCode = StatusNotFound, Body = NoBody\<rparr> :: (string \<times> string) APIResponse)
   \<and> deletealbum_Handler example_TrackInfo (example_request ''zz'' [])
        (InjectorObject example_injector)
        = (\<lparr>StatusCode = StatusNoContent, Body = NoBody\<rparr>, InjectorObject example_injector)
   \<and> Documents empty_instance (''gostream'', ''albums'') = []
   \<and> getalbums_Handler 64 example_TrackInfo (example_request [] [])
        (InjectorObject \<lparr>MongoInstance = empty_instance\<rparr>)
        = \<lparr>StatusCode = StatusOK, Body = ItemsBody []\<rparr>"
proof -
  have r: "Reachable (MongoInstance example_injector)"
    by (simp add: example_injector_def example_instance_def)
  have n: "\<not> list_ex (\<lambda>d. map_of d ''_id''
              = Some (BString (index (PathParameters (example_request ''zz'' [])) ''id'')))
          (Documents (MongoInstance example_injector) (''gostream'', ''albums''))"
    by (simp add: example_defs AlbumInfo_encode_def index_def)
  have e: "Reachable (MongoInstance \<lparr>MongoInstance = empty_instance\<rparr>)
      \<and> Documents (MongoInstance \<lparr>MongoInstance = empty_instance\<rparr>) (''gostream'', ''albums'') = []"
    by (simp add: empty_instance_def)
  note a = zero_match_is_not_an_error [where injector = example_injector
      and request = "example_request ''zz'' []" and TrackInfo = example_TrackInfo
      and inst' = "MongoInstance example_injector" and intSize = 64 and items = "[]"]
  note b = zero_match_is_not_an_error [where injector = "\<lparr>MongoInstance = empty_instance\<rparr>"
      and request = "example_request [] []" and TrackInfo = example_TrackInfo
      and inst' = empty_instance and intSize = 64 and items = "[]"]
  from a r n have 1: "getalbum_Handler (example_request ''zz'' []) (InjectorObject example_injector)
        = (\<lparr>StatusCode = StatusNotFound, Body = NoBody\<rparr> :: (string \<times> string) APIResponse)"
    by simp
  from a r n have 2: "deletealbum_Handler example_TrackInfo (example_request ''zz'' [])
        (InjectorObject example_injector)
        = (\<lparr>StatusCode = StatusNoContent, Body = NoBody\<rparr>, InjectorObject example_injector)"
    by simp
  from b e have 3: "getalbums_Handler 64 example_TrackInfo (example_request [] [])
        (InjectorObject \<lparr>MongoInstance = empty_instance\<rparr>)
        = \<lparr>StatusCode = StatusOK, Body = ItemsBody []\<rparr>"
    by simp
  from r n e 1 2 3 show ?thesis
    by (simp add: example_request_def example_injector_def index_def)
qed

text \<open>
  Claim C5. A disjunction over zero clauses matches no document. When the handler for the
  tracks of an album finds the album and the album has no track identifiers, it answers
  200 with an empty track sequence; the query it would otherwise make, the disjunction of
  no clause, returns the empty sequence as well.
\<close>

theorem album_without_tracks_gives_empty_sequence:
  assumes found: "FindItems (NewMongoStore AlbumInfo_shape ''gostream'' ''albums'') (MongoInstance injector)
        \<lparr>Filter.Root = Some (FilterOperatorEq ''_id'' (BString (index (PathParameters request) ''id''))),
         Filter.Limit = 10\<rparr> = Inr (album # rest)"
    and empty: "AlbumInfo.TrackIDs album = []"
  shows "getalbumtracks_Handler TrackInfo request (InjectorObject injector)
           = \<lparr>StatusCode = StatusOK, Body = ItemsBody []\<rparr>
    \<and> \<not> matches (FilterOperatorOr []) d
    \<and> FindTracksForAlbum (NewMongoStore TrackInfo ''gostream'' ''tracks'') (MongoInstance injector) album
        = Inr []"
proof -
  have h: "getalbumtracks_Handler TrackInfo request (InjectorObject injector)
           = \<lparr>StatusCode = StatusOK, Body = ItemsBody []\<rparr>"
    using found empty
    by (simp add: getalbumtracks_Handler_def getalbumtracks_GetSafeInjector_def)
  have r: "Reachable (MongoInstance injector)"
    using found by (rule FindItems_Inr_Reachable)
  have "FindItems (NewMongoStore TrackInfo ''gostream'' ''tracks'') (MongoInstance injector)
          \<lparr>Filter.Root = Some (FilterOperatorOr []), Filter.Limit = 0\<rparr> = Inr []"
    using r by (intro find_no_match) (simp_all add: filter_matches_Or_Nil list_ex_iff)
  then have f: "FindTracksForAlbum (NewMongoStore TrackInfo ''gostream'' ''tracks'')
                  (MongoInstance injector) album = Inr []"
    using empty by (simp add: FindTracksForAlbum_def)
  from h f show ?thesis by simp
qed

text \<open>On the example data: the album \<open>b2\<close> has no tracks.\<close>

theorem album_without_tracks_gives_empty_sequence_witness:
  "FindItems (NewMongoStore AlbumInfo_shape ''gostream'' ''albums'') example_instance
        \<lparr>Filter.Root = Some (FilterOperatorEq ''_id'' (BString ''b2'')), Filter.Limit = 10\<rparr>
     = Inr [example_empty_album]
   \<and> AlbumInfo.TrackIDs example_empty_album = []
   \<and> getalbumtracks_Handler example_TrackInfo (example_request ''b2'' [])
        (InjectorObject example_injector)
      = \<lparr>StatusCode = StatusOK, Body = ItemsBody []\<rparr>"
proof -
  have i: "index (PathParameters (example_request ''b2'' [])) ''id'' = ''b2''"
    by (simp add: example_request_def index_def)
  have f: "FindItems (NewMongoStore AlbumInfo_shape ''gostream'' ''albums'')
        (MongoInstance example_injector)
        \<lparr>Filter.Root = Some (FilterOperatorEq ''_id''
            (BString (index (PathParameters (example_request ''b2'' [])) ''id''))),
         Filter.Limit = 10\<rparr> = Inr [example_empty_album]"
    unfolding i by (simp add: store_defs example_defs)
  have t: "AlbumInfo.TrackIDs example_empty_album = []"
    by (simp add: example_empty_album_def)
  from album_without_tracks_gives_empty_sequence [OF f t, where TrackInfo = example_TrackInfo]
    f t show ?thesis
    by (simp add: i example_injector_def)
qed

section \<open>The document shape of the GET /albums and DELETE /albums/:id stores\<close>

text \<open>
  Claim C8. The handlers of GET /albums and DELETE /albums/:id build their store over the
  track shape, on the collection \<open>albums\<close>. For a reachable database, GET /albums answers
  with the documents of the collection \<open>albums\<close> (capped by the limit) read through the
  field mapping of the track shape, and with status 500 when that mapping cannot read one
  of them; the album mapping plays no part. DELETE /albums/:id removes from the collection
  \<open>albums\<close> and its answer does not depend on the shape.
\<close>

theorem albums_are_read_through_the_track_shape:
  assumes "Reachable (MongoInstance injector)"
  shows "getalbums_Handler intSize TrackInfo request (InjectorObject injector) =
      (case those (map (Decode TrackInfo)
                    (apply_limit (Filter.Limit (CreateFilterFromQueryParameters intSize request))
                       (Documents (MongoInstance injector) (''gostream'', ''albums'')))) of
         None \<Rightarrow> \<lparr>StatusCode = StatusInternalServerError, Body = NoBody\<rparr>
       | Some items \<Rightarrow> \<lparr>StatusCode = StatusOK, Body = ItemsBody items\<rparr>)
    \<and> deletealbum_Handler TrackInfo request (InjectorObject injector) =
      (\<lparr>StatusCode =
          (if list_ex (\<lambda>d. map_of d ''_id'' = Some (BString (index (PathParameters request) ''id'')))
                (Documents (MongoInstance injector) (''gostream'', ''albums''))
           then StatusAccepted else StatusNoContent),
        Body = NoBody\<rparr>,
       InjectorObject (injector\<lparr>MongoInstance := (MongoInstance injector)
         \<lparr>Documents := (Documents (MongoInstance injector))
            ((''gostream'', ''albums'') :=
               delete_first (index (PathParameters request) ''id'')
                 (Documents (MongoInstance injector) (''gostream'', ''albums'')))\<rparr>\<rparr>))"
proof -
  have g: "getalbums_Handler intSize TrackInfo request (InjectorObject injector) =
      (case those (map (Decode TrackInfo)
                    (apply_limit (Filter.Limit (CreateFilterFromQueryParameters intSize request))
                       (Documents (MongoInstance injector) (''gostream'', ''albums'')))) of
         None \<Rightarrow> \<lparr>StatusCode = StatusInternalServerError, Body = NoBody\<rparr>
       | Some items \<Rightarrow> \<lparr>StatusCode = StatusOK, Body = ItemsBody items\<rparr>)"
    using assms
    by (simp add: getalbums_Handler_def getalbums_GetSafeInjector_def FindItems_def
        filter_query_parameters collection_of_def NewMongoStore_def split: option.splits)
  have d: "deletealbum_Handler TrackInfo request (InjectorObject injector) =
      (\<lparr>StatusCode =
          (if list_ex (\<lambda>d. map_of d ''_id'' = Some (BString (index (PathParameters request) ''id'')))
                (Documents (MongoInstance injector) (''gostream'', ''albums''))
           then StatusAccepted else StatusNoContent),
        Body = NoBody\<rparr>,
       InjectorObject (injector\<lparr>MongoInstance := (MongoInstance injector)
         \<lparr>Documents := (Documents (MongoInstance injector))
            ((''gostream'', ''albums'') :=
               delete_first (index (PathParameters request) ''id'')
                 (Documents (MongoInstance injector) (''gostream'', ''albums'')))\<rparr>\<rparr>))"
    using assms
    by (simp add: deletealbum_Handler_def deletealbum_GetSafeInjector_def DeleteItem_def Let_def
        collection_of_def put_collection_def NewMongoStore_def)
  from g d show ?thesis by simp
qed

text \<open>On the example data: the two album documents come back as values of the example
  track shape, an identifier and an artist, with the artist empty as no album document has
  that field; the title, the tracks and the statistics of the albums are not read.\<close>

theorem albums_are_read_through_the_track_shape_witness:
  "Reachable (MongoInstance example_injector)
   \<and> getalbums_Handler 64 example_TrackInfo (example_request [] []) (InjectorObject example_injector)
      = \<lparr>StatusCode = StatusOK, Body = ItemsBody [(''a1'', []), (''b2'', [])]\<rparr>
   \<and> StatusCode (fst (deletealbum_Handler example_TrackInfo (example_request ''a1'' [])
                        (InjectorObject example_injector))) = StatusAccepted"
proof -
  have r: "Reachable (MongoInstance example_injector)"
    by (simp add: example_injector_def example_instance_def)
  have l: "Filter.Limit (CreateFilterFromQueryParameters 64 (example_request [] [])) = 0"
    by (simp add: CreateFilterFromQueryParameters_def example_request_def)
  note t = albums_are_read_through_the_track_shape [OF r, where TrackInfo = example_TrackInfo
      and intSize = 64]
  have v: "(case those (map (Decode example_TrackInfo)
                    (apply_limit (Filter.Limit (CreateFilterFromQueryParameters 64 (example_request [] [])))
                       (Documents (MongoInstance example_injector) (''gostream'', ''albums'')))) of
         None \<Rightarrow> \<lparr>StatusCode = StatusInternalServerError, Body = NoBody\<rparr>
       | Some items \<Rightarrow> \<lparr>StatusCode = StatusOK, Body = ItemsBody items\<rparr>)
      = \<lparr>StatusCode = StatusOK, Body = ItemsBody [(''a1'', []), (''b2'', [])]\<rparr>"
    unfolding l by (simp add: apply_limit_def example_defs AlbumInfo_encode_def decode_string_def)
  have 1: "getalbums_Handler 64 example_TrackInfo (example_request [] []) (InjectorObject example_injector)
      = \<lparr>StatusCode = StatusOK, Body = ItemsBody [(''a1'', []), (''b2'', [])]\<rparr>"
    using t [where request = "example_request [] []", THEN conjunct1] v by (rule trans)
  have w: "list_ex (\<lambda>d. map_of d ''_id''
              = Some (BString (index (PathParameters (example_request ''a1'' [])) ''id'')))
          (Documents (MongoInstance example_injector) (''gostream'', ''albums''))"
    by (simp add: example_defs AlbumInfo_encode_def index_def)
  have 2: "StatusCode (fst (deletealbum_Handler example_TrackInfo (example_request ''a1'' [])
                        (InjectorObject example_injector))) = StatusAccepted"
    using w by (simp add: t [where request = "example_request ''a1'' []", THEN conjunct2])
  from r 1 2 show ?thesis by simp
qed

section \<open>Process start and the database connection\<close>

lemma unreachable_responses:
  fixes TrackInfo :: "'t Shape"
  assumes u: "\<not> Reachable (MongoInstance injector)"
  shows "getalbums_Handler intSize TrackInfo request (InjectorObject injector)
           = \<lparr>StatusCode = StatusInternalServerError, Body = NoBody\<rparr>"
    and "getalbum_Handler request (InjectorObject injector)
           = (\<lparr>StatusCode = StatusInternalServerError, Body = NoBody\<rparr> :: 't APIResponse)"
    and "deletealbum_Handler TrackInfo request (InjectorObject injector)
           = (\<lparr>StatusCode = StatusInternalServerError, Body = NoBody\<rparr>, InjectorObject injector)"
    and "StatusCode (fst (updatealbum_Handler uuid_Parse TrimSpace unmarshal_update TrackInfo request
                       (InjectorObject injector)))
           = (if uuid_Parse (index (PathParameters request) ''id'') then StatusNotFound
              else StatusBadRequest)"
    and "snd (updatealbum_Handler uuid_Parse TrimSpace unmarshal_update TrackInfo request
                (InjectorObject injector)) = InjectorObject injector"
    and "StatusCode (fst (createalbum_Handler uuid_Parse TrimSpace unmarshal_create uuid_New TrackInfo
                       request (InjectorObject injector)))
           \<in> {StatusBadRequest, StatusInternalServerError}"
    and "snd (createalbum_Handler uuid_Parse TrimSpace unmarshal_create uuid_New TrackInfo request
                (InjectorObject injector)) = InjectorObject injector"
proof -
  show "getalbums_Handler intSize TrackInfo request (InjectorObject injector)
           = \<lparr>StatusCode = StatusInternalServerError, Body = NoBody\<rparr>"
    using u by (simp add: getalbums_Handler_def getalbums_GetSafeInjector_def FindItems_unreachable)
  show "getalbum_Handler request (InjectorObject injector)
           = (\<lparr>StatusCode = StatusInternalServerError, Body = NoBody\<rparr> :: 't APIResponse)"
    using u by (simp add: getalbum_Handler_def getalbum_GetSafeInjector_def FindItems_unreachable)
  show "deletealbum_Handler TrackInfo request (InjectorObject injector)
           = (\<lparr>StatusCode = StatusInternalServerError, Body = NoBody\<rparr>, InjectorObject injector)"
    using u by (simp add: deletealbum_Handler_def deletealbum_GetSafeInjector_def DeleteItem_def)
  show "StatusCode (fst (updatealbum_Handler uuid_Parse TrimSpace unmarshal_update TrackInfo request
                       (InjectorObject injector)))
           = (if uuid_Parse (index (PathParameters request) ''id'') then StatusNotFound
              else StatusBadRequest)"
    using u by (simp add: updatealbum_Handler_def updatealbum_GetSafeInjector_def
        GetAndValidateID_def FindAlbumByID_def FindItems_unreachable Let_def)
  show "snd (updatealbum_Handler uuid_Parse TrimSpace unmarshal_update TrackInfo request
                (InjectorObject injector)) = InjectorObject injector"
    using u by (simp add: updatealbum_Handler_def updatealbum_GetSafeInjector_def
        GetAndValidateID_def FindAlbumByID_def FindItems_unreachable Let_def)
  show "StatusCode (fst (createalbum_Handler uuid_Parse TrimSpace unmarshal_create uuid_New TrackInfo
                       request (InjectorObject injector)))
           \<in> {StatusBadRequest, StatusInternalServerError}"
    using u by (simp add: createalbum_Handler_def createalbum_GetSafeInjector_def
        createalbum_ExtractRequestBody_def CreateItem_def Let_def
        split: option.splits sum.splits)
  show "snd (createalbum_Handler uuid_Parse TrimSpace unmarshal_create uuid_New TrackInfo request
                (InjectorObject injector)) = InjectorObject injector"
    using u by (simp add: createalbum_Handler_def createalbum_GetSafeInjector_def
        createalbum_ExtractRequestBody_def CreateItem_def Let_def
        split: option.splits sum.splits)
qed

text \<open>
  Claim C7. When the credentials are in the environment and the initial database connection
  cannot be established, the process ends fatally, whatever the router engine would do: it
  does not get to serve. Among the operations of the store and its connection this is the only
  failure that ends the process: with the credentials present and a router engine that
  launches, the process ends fatally exactly when the initial connection fails, and a database
  that cannot be reached while requests are served makes each registered handler answer with
  a status (500, 404 or 400) and leave the injector as it was.
\<close>

theorem initial_connection_failure_is_fatal:
  fixes TrackInfo :: "'t Shape"
  assumes user: "GetEnvironmentVariable ''MONGO_USERNAME'' = Some mongoUsername"
    and pass: "GetEnvironmentVariable ''MONGO_PASSWORD'' = Some mongoPassword"
    and uri: "connectionURI = ''mongodb://'' @ mongoUsername @ '':'' @ mongoPassword @ ''@''
                @ GetEnvironmentVariableWithFallback ''MONGO_HOST'' ''127.0.0.1:27017''"
  shows "(NewMongoInstance connectionURI = Inl err \<longrightarrow>
            main GetEnvironmentVariable GetEnvironmentVariableWithFallback NewMongoInstance engine_Run
              = Fatal (''failed to connect to mongo instance: '' @ err))
    \<and> ((\<forall>routes injector port. engine_Run routes injector port = None) \<longrightarrow>
         ((\<exists>msg. main GetEnvironmentVariable GetEnvironmentVariableWithFallback NewMongoInstance
                    engine_Run = Fatal msg)
          \<longleftrightarrow> (\<exists>e. NewMongoInstance connectionURI = Inl e)))
    \<and> (\<not> Reachable (MongoInstance injector) \<longrightarrow>
          getalbums_Handler intSize TrackInfo request (InjectorObject injector)
            = \<lparr>StatusCode = StatusInternalServerError, Body = NoBody\<rparr>
          \<and> getalbum_Handler request (InjectorObject injector)
            = (\<lparr>StatusCode = StatusInternalServerError, Body = NoBody\<rparr> :: 't APIResponse)
          \<and> deletealbum_Handler TrackInfo request (InjectorObject injector)
            = (\<lparr>StatusCode = StatusInternalServerError, Body = NoBody\<rparr>, InjectorObject injector)
          \<and> StatusCode (fst (updatealbum_Handler uuid_Parse TrimSpace unmarshal_update TrackInfo
                               request (InjectorObject injector)))
            = (if uuid_Parse (index (PathParameters request) ''id'') then StatusNotFound
               else StatusBadRequest)
          \<and> snd (updatealbum_Handler uuid_Parse TrimSpace unmarshal_update TrackInfo request
                   (InjectorObject injector)) = InjectorObject injector
          \<and> StatusCode (fst (createalbum_Handler uuid_Parse TrimSpace unmarshal_create uuid_New
                               TrackInfo request (InjectorObject injector)))
            \<in> {StatusBadRequest, StatusInternalServerError}
          \<and> snd (createalbum_Handler uuid_Parse TrimSpace unmarshal_create uuid_New TrackInfo
                   request (InjectorObject injector)) = InjectorObject injector)"
proof -
  have a: "main GetEnvironmentVariable GetEnvironmentVariableWithFallback NewMongoInstance engine_Run
              = Fatal (''failed to connect to mongo instance: '' @ err)"
    if "NewMongoInstance connectionURI = Inl err"
    using user pass uri that by (simp add: main_def)
  have b: "(\<exists>msg. main GetEnvironmentVariable GetEnvironmentVariableWithFallback NewMongoInstance
                    engine_Run = Fatal msg)
          \<longleftrightarrow> (\<exists>e. NewMongoInstance connectionURI = Inl e)"
    if "\<forall>routes injector port. engine_Run routes injector port = None"
    using user pass uri that by (auto simp: main_def Let_def split: sum.splits)
  have c: "getalbums_Handler intSize TrackInfo request (InjectorObject injector)
            = \<lparr>StatusCode = StatusInternalServerError, Body = NoBody\<rparr>
          \<and> getalbum_Handler request (InjectorObject injector)
            = (\<lparr>StatusCode = StatusInternalServerError, Body = NoBody\<rparr> :: 't APIResponse)
          \<and> deletealbum_Handler TrackInfo request (InjectorObject injector)
            = (\<lparr>StatusCode = StatusInternalServerError, Body = NoBody\<rparr>, InjectorObject injector)
          \<and> StatusCode (fst (updatealbum_Handler uuid_Parse TrimSpace unmarshal_update TrackInfo
                               request (InjectorObject injector)))
            = (if uuid_Parse (index (PathParameters request) ''id'') then StatusNotFound
               else StatusBadRequest)
          \<and> snd (updatealbum_Handler uuid_Parse TrimSpace unmarshal_update TrackInfo request
                   (InjectorObject injector)) = InjectorObject injector
          \<and> StatusCode (fst (createalbum_Handler uuid_Parse TrimSpace unmarshal_create uuid_New
                               TrackInfo request (InjectorObject injector)))
            \<in> {StatusBadRequest, StatusInternalServerError}
          \<and> snd (createalbum_Handler uuid_Parse TrimSpace unmarshal_create uuid_New TrackInfo
                   request (InjectorObject injector)) = InjectorObject injector"
    if "\<not> Reachable (MongoInstance injector)"
    by (intro conjI unreachable_responses [OF that])
  from a b c show ?thesis by blast
qed

text \<open>With the credentials \<open>root\<close> and \<open>example\<close>, a connection manager that fails and a
  router engine that would launch: the process ends fatally. With the example database out
  of reach, listing the albums answers 500.\<close>

theorem initial_connection_failure_is_fatal_witness:
  "[''MONGO_USERNAME'' \<mapsto> ''root'', ''MONGO_PASSWORD'' \<mapsto> ''example''] ''MONGO_USERNAME''
     = Some ''root''
   \<and> [''MONGO_USERNAME'' \<mapsto> ''root'', ''MONGO_PASSWORD'' \<mapsto> ''example''] ''MONGO_PASSWORD''
     = Some ''example''
   \<and> main [''MONGO_USERNAME'' \<mapsto> ''root'', ''MONGO_PASSWORD'' \<mapsto> ''example'']
        (\<lambda>name fallback. fallback) (\<lambda>uri. Inl ''no reachable servers'')
        (\<lambda>routes injector port. None)
      = Fatal ''failed to connect to mongo instance: no reachable servers''
   \<and> \<not> Reachable (example_instance\<lparr>Reachable := False\<rparr>)
   \<and> getalbums_Handler 64 example_TrackInfo (example_request [] [])
        (InjectorObject \<lparr>MongoInstance = example_instance\<lparr>Reachable := False\<rparr>\<rparr>)
      = \<lparr>StatusCode = StatusInternalServerError, Body = NoBody\<rparr>"
proof -
  let ?env = "[''MONGO_USERNAME'' \<mapsto> ''root'', ''MONGO_PASSWORD'' \<mapsto> ''example'']"
  let ?uri = "''mongodb://'' @ ''root'' @ '':'' @ ''example'' @ ''@''
                @ (\<lambda>name fallback. fallback) ''MONGO_HOST'' ''127.0.0.1:27017''"
  have u: "?env ''MONGO_USERNAME'' = Some ''root''"
    by simp
  have p: "?env ''MONGO_PASSWORD'' = Some ''example''"
    by simp
  have c: "(\<lambda>uri. Inl ''no reachable servers'' :: string + MongoInstance) ?uri
            = Inl ''no reachable servers''"
    by simp
  have n: "\<not> Reachable (MongoInstance \<lparr>MongoInstance = example_instance\<lparr>Reachable := False\<rparr>\<rparr>)"
    by simp
  note t = initial_connection_failure_is_fatal
      [where GetEnvironmentVariable = ?env
        and GetEnvironmentVariableWithFallback = "\<lambda>name fallback. fallback"
        and NewMongoInstance = "\<lambda>uri. Inl ''no reachable servers''"
        and engine_Run = "\<lambda>routes injector port. None"
        and err = "''no reachable servers''"
        and injector = "\<lparr>MongoInstance = example_instance\<lparr>Reachable := False\<rparr>\<rparr>"
        and TrackInfo = example_TrackInfo and intSize = 64 and request = "example_request [] []"
        and uuid_Parse = "\<lambda>s. s \<noteq> []" and TrimSpace = "\<lambda>s. s"
        and unmarshal_update = example_unmarshal_update
        and unmarshal_create = example_unmarshal_create and uuid_New = "''c3''",
       OF u p refl]
  from t c have 1: "main ?env (\<lambda>name fallback. fallback) (\<lambda>uri. Inl ''no reachable servers'')
        (\<lambda>routes injector port. None)
      = Fatal ''failed to connect to mongo instance: no reachable servers''"
    by simp
  from t n have 2: "getalbums_Handler 64 example_TrackInfo (example_request [] [])
        (InjectorObject \<lparr>MongoInstance = example_instance\<lparr>Reachable := False\<rparr>\<rparr>)
      = \<lparr>StatusCode = StatusInternalServerError, Body = NoBody\<rparr>"
    by simp
  from u p 1 2 show ?thesis by simp
qed

section \<open>Reading and writing album documents\<close>


lemma decode_elements_map: "decode_elements (map BString ts) = Some ts"
  by (induction ts) auto


lemma AlbumInfo_decode_encode: "AlbumInfo_decode (AlbumInfo_encode a) = Some a"
  by (simp add: AlbumInfo_decode_def AlbumInfo_encode_def decode_string_def decode_strings_def
      decode_float_def decode_elements_map)





section \<open>The update handler\<close>










section \<open>The create handler\<close>

lemma CreateItem_album:
  "CreateItem (NewMongoStore AlbumInfo_shape db coll) inst a =
    (if \<not> Reachable inst then Inl ConnectionError
     else if list_ex (\<lambda>e. map_of e ''_id'' = Some (BString (AlbumInfo.ID a))) (Documents inst (db, coll))
          then Inl DuplicateKeyError
          else Inr (inst\<lparr>Documents := (Documents inst)
                 ((db, coll) := Documents inst (db, coll) @ [AlbumInfo_encode a])\<rparr>))"
  by (simp add: CreateItem_def Let_def collection_of_def put_collection_def NewMongoStore_def
      AlbumInfo_shape_def AlbumInfo_encode_def)

text \<open>
  Claim C6. Take a POST /albums request whose body unmarshals and passes validation and
  whose tracks all exist. The handler builds the album from the generated identifier and
  the fields of the body, whatever else the request carries, and passes exactly that album
  to \<open>CreateItem\<close>: when \<open>CreateItem\<close> fails it answers 500, and when it succeeds it answers 200
  with that album as the body. The store generates no identifier: on success the collection
  of albums is the previous one followed by the document of that album, whose primary key
  is the generated identifier and which reads back as the album of the body. The creation
  succeeds whenever the database is reachable and the generated identifier is not taken.
\<close>

theorem create_stores_the_generated_identifier:
  fixes injector :: Injector and request :: APIRequest and rb :: CreateAlbumRequestBody
    and TrackInfo :: "'t Shape" and uuid_New :: string
  defines "inst \<equiv> MongoInstance injector"
    and "albumInfo \<equiv>
      \<lparr>AlbumInfo.ID = uuid_New,
       AlbumInfo.Title = CreateAlbumRequestBody.Title rb,
       AlbumInfo.TrackIDs = CreateAlbumRequestBody.TrackIDs rb,
       AlbumInfo.Stats =
         \<lparr>AlbumStats.Popularity = CreateAlbumStatsRequestBody.Popularity (CreateAlbumRequestBody.Stats rb)\<rparr>\<rparr>"
  assumes body: "json_Unmarshal (APIRequest.Body request) = Some rb"
    and valid: "createalbum_ValidateRequestBody uuid_Parse TrimSpace rb = None"
    and tracks: "createalbum_check_tracks (NewMongoStore TrackInfo ''gostream'' ''tracks'') inst
                   (CreateAlbumRequestBody.TrackIDs rb) = None"
  shows "createalbum_Handler uuid_Parse TrimSpace json_Unmarshal uuid_New TrackInfo request
           (InjectorObject injector) =
      (case CreateItem (NewMongoStore AlbumInfo_shape ''gostream'' ''albums'') inst albumInfo of
         Inl err \<Rightarrow> (\<lparr>StatusCode = StatusInternalServerError, Body = NoBody\<rparr>, InjectorObject injector)
       | Inr inst' \<Rightarrow> (\<lparr>StatusCode = StatusOK, Body = AlbumBody albumInfo\<rparr>,
                       InjectorObject (injector\<lparr>MongoInstance := inst'\<rparr>)))
    \<and> (\<forall>inst'. CreateItem (NewMongoStore AlbumInfo_shape ''gostream'' ''albums'') inst albumInfo = Inr inst'
          \<longrightarrow> Documents inst' (''gostream'', ''albums'')
                = Documents inst (''gostream'', ''albums'') @ [AlbumInfo_encode albumInfo])
    \<and> map_of (AlbumInfo_encode albumInfo) ''_id'' = Some (BString uuid_New)
    \<and> AlbumInfo_decode (AlbumInfo_encode albumInfo) = Some albumInfo
    \<and> (Reachable inst
        \<and> \<not> list_ex (\<lambda>e. map_of e ''_id'' = Some (BString uuid_New))
              (Documents inst (''gostream'', ''albums''))
        \<longrightarrow> createalbum_Handler uuid_Parse TrimSpace json_Unmarshal uuid_New TrackInfo request
              (InjectorObject injector) =
            (\<lparr>StatusCode = StatusOK, Body = AlbumBody albumInfo\<rparr>,
             InjectorObject (injector\<lparr>MongoInstance := inst\<lparr>Documents := (Documents inst)
               ((''gostream'', ''albums'') :=
                  Documents inst (''gostream'', ''albums'') @ [AlbumInfo_encode albumInfo])\<rparr>\<rparr>)))"
proof -
  have h: "createalbum_Handler uuid_Parse TrimSpace json_Unmarshal uuid_New TrackInfo request
           (InjectorObject injector) =
      (case CreateItem (NewMongoStore AlbumInfo_shape ''gostream'' ''albums'') inst albumInfo of
         Inl err \<Rightarrow> (\<lparr>StatusCode = StatusInternalServerError, Body = NoBody\<rparr>, InjectorObject injector)
       | Inr inst' \<Rightarrow> (\<lparr>StatusCode = StatusOK, Body = AlbumBody albumInfo\<rparr>,
                       InjectorObject (injector\<lparr>MongoInstance := inst'\<rparr>)))"
    using body valid tracks
    unfolding inst_def albumInfo_def
    by (simp add: createalbum_Handler_def createalbum_GetSafeInjector_def
        createalbum_ExtractRequestBody_def Let_def)
  have i: "AlbumInfo.ID albumInfo = uuid_New"
    by (simp add: albumInfo_def)
  have s: "Documents inst' (''gostream'', ''albums'')
                = Documents inst (''gostream'', ''albums'') @ [AlbumInfo_encode albumInfo]"
    if "CreateItem (NewMongoStore AlbumInfo_shape ''gostream'' ''albums'') inst albumInfo = Inr inst'"
    for inst'
    using that by (auto simp: CreateItem_album split: if_splits)
  have k: "map_of (AlbumInfo_encode albumInfo) ''_id'' = Some (BString uuid_New)"
    by (simp add: AlbumInfo_encode_def i)
  have f: "createalbum_Handler uuid_Parse TrimSpace json_Unmarshal uuid_New TrackInfo request
              (InjectorObject injector) =
            (\<lparr>StatusCode = StatusOK, Body = AlbumBody albumInfo\<rparr>,
             InjectorObject (injector\<lparr>MongoInstance := inst\<lparr>Documents := (Documents inst)
               ((''gostream'', ''albums'') :=
                  Documents inst (''gostream'', ''albums'') @ [AlbumInfo_encode albumInfo])\<rparr>\<rparr>))"
    if "Reachable inst" "\<not> list_ex (\<lambda>e. map_of e ''_id'' = Some (BString uuid_New))
              (Documents inst (''gostream'', ''albums''))"
    using that by (simp add: h CreateItem_album i)
  from h s k f AlbumInfo_decode_encode [of albumInfo] show ?thesis by blast
qed

text \<open>On the example data: the request creates an album titled \<open>N\<close> with the track \<open>t1\<close>,
  and the generated identifier is \<open>c3\<close>. The handler answers 200 with that album under the
  identifier \<open>c3\<close>, and the album is the third document of the collection afterwards.\<close>

theorem create_stores_the_generated_identifier_witness:
  "example_unmarshal_create ''title: N, trackIds: t1'' = Some example_create
   \<and> createalbum_ValidateRequestBody (\<lambda>s. s \<noteq> []) (\<lambda>s. s) example_create = None
   \<and> createalbum_check_tracks (NewMongoStore example_TrackInfo ''gostream'' ''tracks'')
        example_instance [''t1''] = None
   \<and> createalbum_Handler (\<lambda>s. s \<noteq> []) (\<lambda>s. s) example_unmarshal_create ''c3'' example_TrackInfo
        (example_request [] ''title: N, trackIds: t1'') (InjectorObject example_injector)
      = (\<lparr>StatusCode = StatusOK, Body = AlbumBody example_created\<rparr>,
         InjectorObject (example_injector\<lparr>MongoInstance := example_instance\<lparr>Documents :=
           (Documents example_instance)((''gostream'', ''albums'') :=
              example_albums @ [AlbumInfo_encode example_created])\<rparr>\<rparr>))
   \<and> AlbumInfo.ID example_created = ''c3''"
proof -
  let ?req = "example_request [] ''title: N, trackIds: t1''"
  have b: "example_unmarshal_create (APIRequest.Body ?req) = Some example_create"
    by (simp add: example_request_def example_unmarshal_create_def)
  have v: "createalbum_ValidateRequestBody (\<lambda>s. s \<noteq> []) (\<lambda>s. s) example_create = None"
    by (simp add: createalbum_ValidateRequestBody_def createalbum_ValidateAlbumStatsRequestBody_def
        example_create_def)
  have t: "createalbum_check_tracks (NewMongoStore example_TrackInfo ''gostream'' ''tracks'')
        (MongoInstance example_injector) (CreateAlbumRequestBody.TrackIDs example_create) = None"
    by (simp add: createalbum_CheckIfTrackExists_def store_defs example_defs)
  have r: "Reachable (MongoInstance example_injector)
        \<and> \<not> list_ex (\<lambda>e. map_of e ''_id'' = Some (BString ''c3''))
              (Documents (MongoInstance example_injector) (''gostream'', ''albums''))"
    by (simp add: example_defs AlbumInfo_encode_def)
  have c: "\<lparr>AlbumInfo.ID = ''c3'',
       AlbumInfo.Title = CreateAlbumRequestBody.Title example_create,
       AlbumInfo.TrackIDs = CreateAlbumRequestBody.TrackIDs example_create,
       AlbumInfo.Stats =
         \<lparr>AlbumStats.Popularity =
            CreateAlbumStatsRequestBody.Popularity (CreateAlbumRequestBody.Stats example_create)\<rparr>\<rparr>
      = example_created"
    by (simp add: example_create_def example_created_def)
  note T = create_stores_the_generated_identifier
      [where uuid_Parse = "\<lambda>s. s \<noteq> []" and TrimSpace = "\<lambda>s. s"
        and json_Unmarshal = example_unmarshal_create and TrackInfo = example_TrackInfo
        and request = ?req and injector = example_injector and rb = example_create
        and uuid_New = "''c3''", OF b v t, unfolded c]
  note L = T [THEN conjunct2, THEN conjunct2, THEN conjunct2, THEN conjunct2, THEN mp, OF r]
  have h: "createalbum_Handler (\<lambda>s. s \<noteq> []) (\<lambda>s. s) example_unmarshal_create ''c3'' example_TrackInfo
        ?req (InjectorObject example_injector)
      = (\<lparr>StatusCode = StatusOK, Body = AlbumBody example_created\<rparr>,
         InjectorObject (example_injector\<lparr>MongoInstance := example_instance\<lparr>Documents :=
           (Documents example_instance)((''gostream'', ''albums'') :=
              example_albums @ [AlbumInfo_encode example_created])\<rparr>\<rparr>))"
    using L by (simp add: example_injector_def example_instance_def)
  have g1: "example_unmarshal_create ''title: N, trackIds: t1'' = Some example_create"
    using b by (simp add: example_request_def)
  have g3: "createalbum_check_tracks (NewMongoStore example_TrackInfo ''gostream'' ''tracks'')
        example_instance [''t1''] = None"
    using t by (simp add: example_injector_def example_create_def)
  have g5: "AlbumInfo.ID example_created = ''c3''"
    by (simp add: example_created_def)
  show ?thesis
    by (intro conjI g1 v g3 h g5)
qed

end
